theory Spec2Isabelle
  imports Main "HOL-Library.AList"
begin

section \<open>JavaScript objects with string keys\<close>

text \<open>
  A plain JavaScript object is an association list of its own entries, in insertion
  order.  Reading \<open>obj[k]\<close> goes through the prototype chain: an own entry is found
  first; failing that, the names of the members of \<open>Object.prototype\<close> read as the
  inherited member, and every other name reads as \<open>undefined\<close>.
\<close>

type_synonym 'v obj = "(string \<times> 'v) list"

definition object_prototype_members :: "string list" where
  "object_prototype_members =
     [''constructor'', ''__defineGetter__'', ''__defineSetter__'', ''hasOwnProperty'',
      ''__lookupGetter__'', ''__lookupSetter__'', ''isPrototypeOf'', ''propertyIsEnumerable'',
      ''toString'', ''valueOf'', ''__proto__'', ''toLocaleString'']"

datatype 'v lookup = Own 'v | Inherited | Undefined

definition js_get :: "'v obj \<Rightarrow> string \<Rightarrow> 'v lookup" where
  "js_get m k =
     (case map_of m k of
        Some v \<Rightarrow> Own v
      | None \<Rightarrow> if k \<in> set object_prototype_members then Inherited else Undefined)"

text \<open>
  The assignment \<open>obj[k] = v\<close> of a number, a string or a boolean: an existing key
  keeps its place, a new key goes last.  The name \<open>__proto__\<close> is an accessor of
  \<open>Object.prototype\<close> whose setter ignores such values, so unless the object has an
  own entry of that name (an object read from JSON may) nothing is stored.
\<close>

definition js_set :: "string \<Rightarrow> 'v \<Rightarrow> 'v obj \<Rightarrow> 'v obj" where
  "js_set k v m = (if k = ''__proto__'' \<and> map_of m k = None then m else AList.update k v m)"

section \<open>JavaScript numbers\<close>

text \<open>
  The numbers of the content files are integers, and a JavaScript number is a double:
  \<open>Num n\<close> is the double that equals the integer \<open>n\<close>, beside the two infinities
  and \<open>NaN\<close>.  \<open>Junk\<close> stands for the values that are no numbers and that the
  numeric objects of the game can come to hold or to yield: a member inherited from
  \<open>Object.prototype\<close> (a function, or the prototype itself for \<open>__proto__\<close>) and
  the string that \<open>+\<close> builds from such a value and a number.  They are truthy and
  convert to \<open>NaN\<close>.
\<close>

datatype jsval = Num int | PosInf | NegInf | NaN | Junk

text \<open>
  Rounding a natural number to the nearest double, ties to the even significand.  Below
  \<open>2^53\<close> every integer is a double.  From there on a double has 53 significant bits:
  \<open>significand_shift n\<close> is the number of low bits of \<open>n\<close> that do not fit.
\<close>

function significand_shift :: "nat \<Rightarrow> nat" where
  "significand_shift n = (if n < 2 ^ 53 then 0 else Suc (significand_shift (n div 2)))"
  by pat_completeness auto
termination
  by (relation "measure (\<lambda>n. n)") auto

declare significand_shift.simps [simp del]

definition round_to_double :: "nat \<Rightarrow> nat" where
  "round_to_double n =
     (let e = significand_shift n;
          q = n div 2 ^ e;
          r = n mod 2 ^ e
      in if 2 * r < 2 ^ e \<or> (2 * r = 2 ^ e \<and> even q) then q * 2 ^ e
         else (q + 1) * 2 ^ e)"

text \<open>The double nearest to an integer; from \<open>2^1024\<close> on the rounding overflows.\<close>

definition to_double :: "int \<Rightarrow> jsval" where
  "to_double z =
     (let m = round_to_double (nat \<bar>z\<bar>)
      in if 2 ^ 1024 \<le> m then (if z < 0 then NegInf else PosInf)
         else Num (if z < 0 then - int m else int m))"

text \<open>
  The operator \<open>+\<close>: with a value that is no number it concatenates strings, on
  numbers it is the addition of doubles.
\<close>

fun js_add :: "jsval \<Rightarrow> jsval \<Rightarrow> jsval" where
  "js_add Junk y = Junk"
| "js_add x Junk = Junk"
| "js_add NaN y = NaN"
| "js_add x NaN = NaN"
| "js_add (Num a) (Num b) = to_double (a + b)"
| "js_add PosInf NegInf = NaN"
| "js_add NegInf PosInf = NaN"
| "js_add PosInf y = PosInf"
| "js_add x PosInf = PosInf"
| "js_add NegInf y = NegInf"
| "js_add x NegInf = NegInf"

text \<open>The idiom \<open>obj[k] || 0\<close>: zero, \<open>NaN\<close> and \<open>undefined\<close> are falsy.\<close>

fun or_zero :: "jsval lookup \<Rightarrow> jsval" where
  "or_zero (Own NaN) = Num 0"
| "or_zero (Own v) = v"
| "or_zero Inherited = Junk"
| "or_zero Undefined = Num 0"

text \<open>\<open>Math.max(-100, Math.min(100, x))\<close>; both functions convert \<open>x\<close> to a number.\<close>

fun clamp100 :: "jsval \<Rightarrow> jsval" where
  "clamp100 (Num n) = Num (max (- 100) (min 100 n))"
| "clamp100 PosInf = Num 100"
| "clamp100 NegInf = Num (- 100)"
| "clamp100 NaN = NaN"
| "clamp100 Junk = NaN"

text \<open>The value that a read hands to an arithmetic function.\<close>

fun read_value :: "jsval lookup \<Rightarrow> jsval" where
  "read_value (Own v) = v"
| "read_value Inherited = Junk"
| "read_value Undefined = NaN"

text \<open>The comparison \<open>x < t\<close> with an integer literal \<open>t\<close>; it is false on what is no number.\<close>

fun js_lt :: "jsval \<Rightarrow> int \<Rightarrow> bool" where
  "js_lt (Num n) t = (n < t)"
| "js_lt NegInf t = True"
| "js_lt PosInf t = False"
| "js_lt NaN t = False"
| "js_lt Junk t = False"

section \<open>Diplomacy state and effects (diplomacy_engine.js)\<close>

datatype flag_value = FlagBool bool | FlagStr string

record game_state =
  factions :: "jsval obj"
  player_traits :: "jsval obj"
  npc_opinions :: "jsval obj"
  flags :: "flag_value obj"

text \<open>
  An effects object, as the content files give it: each of the four sub-maps may be
  absent (\<open>None\<close>), which is what the guards \<open>if (effects.factions)\<close> of
  \<open>applyEffects\<close> and the defaults \<open>mapping.effects.factions || {}\<close> of the AI worker
  test.  Its numbers are integers.
\<close>

record effects =
  eff_factions :: "int obj option"
  eff_player_traits :: "int obj option"
  eff_npc_opinions :: "int obj option"
  eff_flags :: "flag_value obj option"

text \<open>
  \<open>initializeGameState\<close>; the argument is \<open>Object.keys(diplomacyCore.factions)\<close>.
  Both of its loops store 0 under every id of a list.
\<close>

fun zero_all :: "jsval obj \<Rightarrow> string list \<Rightarrow> jsval obj" where
  "zero_all m [] = m"
| "zero_all m (factionId # rest) = zero_all (js_set factionId (Num 0) m) rest"

definition prologueNPCs :: "string list" where
  "prologueNPCs = [''trepov'', ''kf'', ''samsonov'', ''sokolov'']"

definition initializeGameState :: "string list \<Rightarrow> game_state" where
  "initializeGameState factionIds =
     \<lparr> factions = zero_all [] factionIds,
       player_traits = [(''INDEPENDENCE'', Num 0), (''NEUTRALITY'', Num 0)],
       npc_opinions = zero_all [] prologueNPCs,
       flags = [] \<rparr>"

text \<open>
  The two loops of \<open>applyEffects\<close> over factions and over NPC opinions have the same
  body: add the delta to \<open>current || 0\<close>, store it, then read it again and store
  \<open>Math.max(-100, Math.min(100, stored))\<close>.
\<close>

fun add_clamped :: "jsval obj \<Rightarrow> int obj \<Rightarrow> jsval obj" where
  "add_clamped m [] = m"
| "add_clamped m ((k, v) # rest) =
     (let m1 = js_set k (js_add (or_zero (js_get m k)) (Num v)) m;
          m2 = js_set k (clamp100 (read_value (js_get m1 k))) m1
      in add_clamped m2 rest)"

text \<open>The loop over player traits adds and stores, with no clamp.\<close>

fun add_plain :: "jsval obj \<Rightarrow> int obj \<Rightarrow> jsval obj" where
  "add_plain m [] = m"
| "add_plain m ((k, v) # rest) =
     add_plain (js_set k (js_add (or_zero (js_get m k)) (Num v)) m) rest"

text \<open>\<open>Object.assign(target, source)\<close>: every entry of the source is assigned.\<close>

fun object_assign :: "'v obj \<Rightarrow> 'v obj \<Rightarrow> 'v obj" where
  "object_assign target [] = target"
| "object_assign target ((k, v) # rest) = object_assign (js_set k v target) rest"

definition applyEffects :: "game_state \<Rightarrow> effects \<Rightarrow> game_state" where
  "applyEffects gameState effects =
     \<lparr> factions =
         (case eff_factions effects of None \<Rightarrow> factions gameState
          | Some fs \<Rightarrow> add_clamped (factions gameState) fs),
       player_traits =
         (case eff_player_traits effects of None \<Rightarrow> player_traits gameState
          | Some ts \<Rightarrow> add_plain (player_traits gameState) ts),
       npc_opinions =
         (case eff_npc_opinions effects of None \<Rightarrow> npc_opinions gameState
          | Some os \<Rightarrow> add_clamped (npc_opinions gameState) os),
       flags =
         (case eff_flags effects of None \<Rightarrow> flags gameState
          | Some fl \<Rightarrow> object_assign (flags gameState) fl) \<rparr>"

text \<open>A run of \<open>applyEffects\<close> calls, oldest first.\<close>

fun applyEffects_all :: "game_state \<Rightarrow> effects list \<Rightarrow> game_state" where
  "applyEffects_all gameState [] = gameState"
| "applyEffects_all gameState (e # es) = applyEffects_all (applyEffects gameState e) es"

text \<open>Every stored value of a numeric object is a number in \<open>[-100, 100]\<close>.\<close>

fun value_in_range :: "jsval \<Rightarrow> bool" where
  "value_in_range (Num n) = (- 100 \<le> n \<and> n \<le> 100)"
| "value_in_range v = False"

definition in_range :: "jsval obj \<Rightarrow> bool" where
  "in_range m = list_all (\<lambda>kv. value_in_range (snd kv)) m"

text \<open>No key of a sub-map is the name of a member of \<open>Object.prototype\<close>.\<close>

definition plain_keys :: "'v obj \<Rightarrow> bool" where
  "plain_keys es = list_all (\<lambda>kv. fst kv \<notin> set object_prototype_members) es"

text \<open>The sub-maps of an effects object that feed the clamped loops have such keys only.\<close>

definition plain_effects :: "effects \<Rightarrow> bool" where
  "plain_effects e =
     ((case eff_factions e of None \<Rightarrow> True | Some fs \<Rightarrow> plain_keys fs)
      \<and> (case eff_npc_opinions e of None \<Rightarrow> True | Some os \<Rightarrow> plain_keys os))"

section \<open>AI dialogue rules and the anti-spiral guard (AIWorker, rule-table version)\<close>

text \<open>
  A field of the analysis object is a string or a list of strings; an absent field
  reads as \<open>undefined\<close> (\<open>None\<close>).  The expected value of a condition key is a
  single string or an array of strings.
\<close>

datatype analysis_value = AStr string | AStrList "string list"

datatype expected = ExpScalar string | ExpArray "string list"

type_synonym analysis = "analysis_value obj"

text \<open>
  The body of the loop of \<open>matchesCondition\<close> for one condition entry:
  with an array of expected values, \<open>expectedValues.some(...)\<close>, where a list-valued
  actual value is searched with \<open>actualValue.some(v => v === expected)\<close> and any
  other actual value is compared with \<open>===\<close>; with a scalar expected value the single
  test \<open>actualValue !== expectedValues\<close>, which an array never passes.
\<close>

fun key_matches :: "expected \<Rightarrow> analysis_value option \<Rightarrow> bool" where
  "key_matches (ExpArray expectedValues) actualValue =
     list_ex (\<lambda>expected.
        (case actualValue of
           Some (AStrList vs) \<Rightarrow> list_ex (\<lambda>v. v = expected) vs
         | Some (AStr s) \<Rightarrow> s = expected
         | None \<Rightarrow> False)) expectedValues"
| "key_matches (ExpScalar expectedValue) actualValue = (actualValue = Some (AStr expectedValue))"

fun matchesCondition :: "expected obj \<Rightarrow> analysis \<Rightarrow> bool" where
  "matchesCondition [] analysis = True"
| "matchesCondition ((key, expectedValues) # rest) analysis =
     (if \<not> key_matches expectedValues (map_of analysis key) then False
      else matchesCondition rest analysis)"

record mapping =
  condition :: "expected obj"
  mapping_effects :: effects

text \<open>
  An act of the module's diplomacy data: its scene id and, when the scene declares
  \<open>ai_dialogue\<close>, the \<open>effects_mapping\<close> list of that descriptor.
\<close>

record act =
  scene :: string
  ai_dialogue :: "mapping list option"

definition getDefaultEffects :: effects where
  "getDefaultEffects =
     \<lparr> eff_factions = Some [], eff_player_traits = Some [],
       eff_npc_opinions = Some [], eff_flags = Some [] \<rparr>"

text \<open>\<open>x || {}\<close> on an optional sub-map.\<close>

definition or_empty :: "'v obj option \<Rightarrow> 'v obj option" where
  "or_empty sub = (case sub of None \<Rightarrow> Some [] | Some m \<Rightarrow> Some m)"

text \<open>The loop of \<open>calculateDiplomacyEffects\<close> over \<open>effects_mapping\<close>.\<close>

fun first_matching :: "mapping list \<Rightarrow> analysis \<Rightarrow> effects" where
  "first_matching [] analysis = getDefaultEffects"
| "first_matching (m # rest) analysis =
     (if matchesCondition (condition m) analysis
      then \<lparr> eff_factions = or_empty (eff_factions (mapping_effects m)),
             eff_player_traits = or_empty (eff_player_traits (mapping_effects m)),
             eff_npc_opinions = or_empty (eff_npc_opinions (mapping_effects m)),
             eff_flags = or_empty (eff_flags (mapping_effects m)) \<rparr>
      else first_matching rest analysis)"

text \<open>
  \<open>calculateDiplomacyEffects(npcId, sceneId, analysis, gameState)\<close>; \<open>acts\<close> is
  \<open>currentModuleDiplomacy.acts\<close>.  The character and the game state are not read.
\<close>

definition calculateDiplomacyEffects ::
    "act list \<Rightarrow> string \<Rightarrow> string \<Rightarrow> analysis \<Rightarrow> game_state \<Rightarrow> effects" where
  "calculateDiplomacyEffects acts npcId sceneId analysis gameState =
     (case find (\<lambda>a. scene a = sceneId) acts of
        None \<Rightarrow> getDefaultEffects
      | Some sc \<Rightarrow>
          (case ai_dialogue sc of
             None \<Rightarrow> getDefaultEffects
           | Some mappings \<Rightarrow> first_matching mappings analysis))"

text \<open>
  The rule matching in the words of the specification: every key of the condition is
  satisfied, a key being satisfied when the analysis value, or any element of a
  list-valued analysis value, equals one of the expected values of the key (one value
  or a set of values).
\<close>

definition spec_expected_values :: "expected \<Rightarrow> string list" where
  "spec_expected_values ev = (case ev of ExpScalar e \<Rightarrow> [e] | ExpArray es \<Rightarrow> es)"

definition spec_key_matches :: "expected \<Rightarrow> analysis_value option \<Rightarrow> bool" where
  "spec_key_matches ev actual =
     (case actual of
        None \<Rightarrow> False
      | Some (AStr s) \<Rightarrow> s \<in> set (spec_expected_values ev)
      | Some (AStrList vs) \<Rightarrow> list_ex (\<lambda>v. v \<in> set (spec_expected_values ev)) vs)"

definition spec_matchesCondition :: "expected obj \<Rightarrow> analysis \<Rightarrow> bool" where
  "spec_matchesCondition cond analysis =
     list_all (\<lambda>kv. spec_key_matches (snd kv) (map_of analysis (fst kv))) cond"

text \<open>
  The rules table \<open>npc_diplomacy_rules.json\<close>: per character an entry whose
  \<open>fallback_rule\<close> is only logged.
\<close>

record npc_rule =
  fallback_rule :: "string option"

text \<open>
  What the code throws: the \<open>TypeError\<close> and \<open>SyntaxError\<close> of the runtime, and the
  errors it raises itself with \<open>throw new Error(...)\<close>.
\<close>

datatype error =
    TypeError
  | SyntaxError
  | StateNotFound string
  | NoValidTransition string "string option"
  | InvalidResponse string

text \<open>
  \<open>applyFallbackProtections(npcId, effects, gameState)\<close> mutates
  \<open>effects.npc_opinions[npcId]\<close> in place; the model returns the effects object
  after the call.  Its guard \<open>if (!npcRules) return\<close> tests what the read
  \<open>npc_rules[npcId]\<close> yields: an entry of the table and an inherited member are
  both truthy.  Reading \<open>effects.npc_opinions[npcId]\<close> when the sub-map is absent
  raises a \<open>TypeError\<close>, before anything is written.  The two comparisons
  \<open>effects.npc_opinions[npcId] < 0\<close> are true only of an own negative entry, which
  the assignment then overwrites.
\<close>

definition soften :: "string \<Rightarrow> int obj \<Rightarrow> int obj" where
  "soften npcId ops =
     (case map_of ops npcId of
        None \<Rightarrow> ops
      | Some d \<Rightarrow> if d < 0 then AList.update npcId (max d (- 3)) ops else ops)"

definition neutralize :: "string \<Rightarrow> int obj \<Rightarrow> int obj" where
  "neutralize npcId ops =
     (case map_of ops npcId of
        None \<Rightarrow> ops
      | Some d \<Rightarrow> if d < 0 then AList.update npcId 0 ops else ops)"

text \<open>
  \<open>currentOpinion + opinionDelta\<close>, each read with \<open>|| 0\<close>: the opinion from the
  game state, the delta from the effects.
\<close>

definition predictedOpinion :: "game_state \<Rightarrow> int obj \<Rightarrow> string \<Rightarrow> jsval" where
  "predictedOpinion gameState ops npcId =
     js_add (or_zero (js_get (npc_opinions gameState) npcId))
            (or_zero (map_lookup Num (js_get ops npcId)))"

definition applyFallbackProtections ::
    "npc_rule obj \<Rightarrow> string \<Rightarrow> effects \<Rightarrow> game_state \<Rightarrow> error + effects" where
  "applyFallbackProtections npc_rules npcId effects gameState =
     (case js_get npc_rules npcId of
        Undefined \<Rightarrow> Inr effects
      | _ \<Rightarrow>
          (case eff_npc_opinions effects of
             None \<Rightarrow> Inl TypeError
           | Some ops \<Rightarrow>
               (let predicted = predictedOpinion gameState ops npcId;
                    softLockThreshold = - 40;
                    hardLockThreshold = - 80;
                    ops1 = (if js_lt predicted softLockThreshold then soften npcId ops else ops);
                    ops2 = (if js_lt predicted hardLockThreshold then neutralize npcId ops1 else ops1)
                in Inr (effects\<lparr>eff_npc_opinions := Some ops2\<rparr>))))"

text \<open>
  The effects object after a call of the guard: the one the call leaves when it returns,
  and the one it was given when the call throws, which it does at its first read of the
  opinion sub-map, before any assignment.
\<close>

definition delta_after_guard ::
    "npc_rule obj \<Rightarrow> string \<Rightarrow> effects \<Rightarrow> game_state \<Rightarrow> effects" where
  "delta_after_guard npc_rules npcId effects gameState =
     (case applyFallbackProtections npc_rules npcId effects gameState of
        Inl e \<Rightarrow> effects
      | Inr effects' \<Rightarrow> effects')"

section \<open>Narrative state machine (state_machine.js)\<close>

text \<open>
  A state of the graph: its \<open>type\<close>, the optional \<open>choices\<close> and
  \<open>transitions\<close> arrays and, for a hub, the optional \<open>ai_dialogue\<close> descriptor
  (its \<open>npc_id\<close>).  Ids are strings; the empty string is falsy in JavaScript, as
  \<open>null\<close> and \<open>undefined\<close> are.
\<close>

record choice =
  choice_id :: string
  choice_next :: string

record transition_entry =
  transition_to :: string

record node =
  node_type :: string
  choices :: "choice list option"
  transitions :: "transition_entry list option"
  node_ai_dialogue :: "string option"

record history_entry =
  h_from :: string
  h_to :: string
  h_choice :: "string option"
  h_timestamp :: nat

record machine =
  states :: "node obj"
  currentState :: string
  exitState :: string
  history :: "history_entry list"

text \<open>The constructor: the cursor on \<open>entry_state\<close>, an empty history.\<close>

definition new_machine :: "node obj \<Rightarrow> string \<Rightarrow> string \<Rightarrow> machine" where
  "new_machine sts entry_state exit_state =
     \<lparr>states = sts, currentState = entry_state, exitState = exit_state, history = []\<rparr>"

definition getCurrentState :: "machine \<Rightarrow> node option" where
  "getCurrentState sm = map_of (states sm) (currentState sm)"

definition isFinished :: "machine \<Rightarrow> bool" where
  "isFinished sm = (currentState sm = exitState sm)"

text \<open>\<open>!x\<close> on an optional string: \<open>null\<close> or the empty string.\<close>

definition falsy :: "string option \<Rightarrow> bool" where
  "falsy x = (x = None \<or> x = Some [])"

text \<open>\<open>state.transitions[0].to\<close>: on an empty array the read of \<open>.to\<close> raises.\<close>

definition first_target :: "transition_entry list \<Rightarrow> error + string option" where
  "first_target ts = (case ts of [] \<Rightarrow> Inl TypeError | t # _ \<Rightarrow> Inr (Some (transition_to t)))"

text \<open>
  The if-chain of \<open>transition\<close> that computes \<open>nextState\<close> (\<open>None\<close> is the initial
  \<open>null\<close>).  Only the hub branch tests \<open>transitions.length > 0\<close>.
\<close>

definition next_state :: "node \<Rightarrow> string option \<Rightarrow> error + string option" where
  "next_state state choiceId =
     (if node_type state = ''scene'' \<and> choices state \<noteq> None then
        (case find (\<lambda>c. Some (choice_id c) = choiceId) (the (choices state)) of
           Some c \<Rightarrow> Inr (Some (choice_next c))
         | None \<Rightarrow>
             if falsy choiceId \<and> transitions state \<noteq> None
             then first_target (the (transitions state))
             else Inr None)
      else if node_type state = ''hub'' \<and> transitions state \<noteq> None then
        (if falsy choiceId \<and> length (the (transitions state)) > 0
         then first_target (the (transitions state))
         else Inr None)
      else if node_type state = ''ai_dialogue'' \<and> transitions state \<noteq> None then
        first_target (the (transitions state))
      else if node_type state = ''system'' \<and> transitions state \<noteq> None then
        first_target (the (transitions state))
      else Inr None)"

text \<open>
  \<open>transition(choiceId = null)\<close>.  The result pairs what the call returns or throws
  with the machine after the call; \<open>now\<close> is the value of \<open>Date.now()\<close>.  The
  history array grows at its end (\<open>push\<close>).
\<close>

definition transition :: "machine \<Rightarrow> string option \<Rightarrow> nat \<Rightarrow> (error + node option) \<times> machine" where
  "transition sm choiceId now =
     (case getCurrentState sm of
        None \<Rightarrow> (Inl (StateNotFound (currentState sm)), sm)
      | Some state \<Rightarrow>
          (case next_state state choiceId of
             Inl e \<Rightarrow> (Inl e, sm)
           | Inr nextState \<Rightarrow>
               if falsy nextState then (Inl (NoValidTransition (currentState sm) choiceId), sm)
               else
                 (let sm1 = sm\<lparr>history := history sm @
                              [\<lparr>h_from = currentState sm, h_to = the nextState,
                                h_choice = choiceId, h_timestamp = now\<rparr>]\<rparr>;
                      sm2 = sm1\<lparr>currentState := the nextState\<rparr>
                  in (Inr (getCurrentState sm2), sm2))))"

section \<open>Going back (GameEngine.navigateBack)\<close>

text \<open>
  What the engine's environment decides for a hub: whether AI dialogue is enabled
  (\<open>window.AI_PROXY_ENABLED && this.aiWorker && this.aiClient\<close>) and whether
  rendering the dialogue of a character throws.  The renderer and the profile lookup
  are external; in the scene handler they are taken to return.
\<close>

record engine_env =
  ai_enabled :: bool
  hub_render_fails :: "string \<Rightarrow> bool"

text \<open>
  The handlers of \<open>processCurrentState\<close> that call \<open>transition()\<close> and process the
  new state at once: \<open>handleSystemState\<close>, \<open>handleAIDialogueState\<close>, and
  \<open>handleHubState\<close> when there is no dialogue to offer, AI is off, or rendering
  throws.  \<open>handleSceneState\<close> and the default case only render or log.
\<close>

definition handler_advances :: "engine_env \<Rightarrow> node \<Rightarrow> bool" where
  "handler_advances env state =
     (if node_type state = ''system'' then True
      else if node_type state = ''scene'' then False
      else if node_type state = ''hub'' then
        (case node_ai_dialogue state of
           None \<Rightarrow> True
         | Some npc_id \<Rightarrow> \<not> ai_enabled env \<or> hub_render_fails env npc_id)
      else if node_type state = ''ai_dialogue'' then True
      else False)"



section \<open>Heuristic analysis of the player's text (AIWorker, safe version)\<close>

text \<open>
  Strings are byte lists in UTF-8; \<open>a_uml\<close> is the letter a with diaeresis that the
  Finnish keywords contain.  A substring test on well-formed UTF-8 agrees with the
  substring test on the characters.
\<close>

definition a_uml :: string where
  "a_uml = [CHR 0xC3, CHR 0xA4]"

definition o_uml :: string where
  "o_uml = [CHR 0xC3, CHR 0xB6]"

fun starts_with :: "string \<Rightarrow> string \<Rightarrow> bool" where
  "starts_with s [] = True"
| "starts_with [] (k # ks) = False"
| "starts_with (c # cs) (k # ks) = (c = k \<and> starts_with cs ks)"

fun contains :: "string \<Rightarrow> string \<Rightarrow> bool" where
  "contains [] kw = (kw = [])"
| "contains (c # cs) kw = (starts_with (c # cs) kw \<or> contains cs kw)"

text \<open>
  \<open>text.match(/k1|k2|.../)\<close> for literal alternatives, used as a condition: some
  alternative occurs somewhere in the text.
\<close>

definition regex_match :: "string list \<Rightarrow> string \<Rightarrow> bool" where
  "regex_match alternatives s = list_ex (contains s) alternatives"

definition duty_terms :: "string list" where
  "duty_terms = [''velvollisuus'', ''k'' @ a_uml @ ''sky'', ''palvelen'', ''totelen'']"

definition caution_terms :: "string list" where
  "caution_terms = [''ep'' @ a_uml @ ''ilen'', ''huolestun'', ''riski'', ''vaara'']"

definition refusal_terms :: "string list" where
  "refusal_terms = [''kielt'' @ a_uml @ ''y'', ''en voi'', ''vastustan'']"

definition agreement_terms :: "string list" where
  "agreement_terms = [''ymm'' @ a_uml @ ''rr'' @ a_uml @ ''n'', ''selv'' @ a_uml, ''hyv'' @ a_uml]"

record dialogue_analysis =
  tone :: string
  themes :: "string list"
  sentiment :: string

text \<open>
  \<open>analyzePlayerResponse(playerText, npcProfile)\<close>.  \<open>toLowerCase\<close> is the runtime's
  \<open>String.prototype.toLowerCase\<close>; the profile is not read.
\<close>

definition analyzePlayerResponse ::
    "(string \<Rightarrow> string) \<Rightarrow> string \<Rightarrow> 'profile \<Rightarrow> dialogue_analysis" where
  "analyzePlayerResponse toLowerCase playerText npcProfile =
     (let lowerText = toLowerCase playerText;
          analysis = \<lparr>tone = ''neutral'', themes = [], sentiment = ''neutral''\<rparr>
      in if regex_match duty_terms lowerText then
           analysis\<lparr>tone := ''loyal'', themes := themes analysis @ [''duty''],
                    sentiment := ''positive''\<rparr>
         else if regex_match caution_terms lowerText then
           analysis\<lparr>tone := ''concerned'', themes := themes analysis @ [''caution''],
                    sentiment := ''neutral''\<rparr>
         else if regex_match refusal_terms lowerText then
           analysis\<lparr>tone := ''defiant'', themes := themes analysis @ [''resistance''],
                    sentiment := ''negative''\<rparr>
         else if regex_match agreement_terms lowerText then
           analysis\<lparr>tone := ''cooperative'', themes := themes analysis @ [''agreement''],
                    sentiment := ''positive''\<rparr>
         else analysis)"

text \<open>
  The four keyword families in the words of the specification, in its priority order:
  the terms of the family and the tone, theme and sentiment it yields.
\<close>

record family =
  family_terms :: "string list"
  family_tone :: string
  family_theme :: string
  family_sentiment :: string

definition spec_families :: "family list" where
  "spec_families =
     [\<lparr>family_terms = duty_terms, family_tone = ''loyal'',
       family_theme = ''duty'', family_sentiment = ''positive''\<rparr>,
      \<lparr>family_terms = caution_terms, family_tone = ''concerned'',
       family_theme = ''caution'', family_sentiment = ''neutral''\<rparr>,
      \<lparr>family_terms = refusal_terms, family_tone = ''defiant'',
       family_theme = ''resistance'', family_sentiment = ''negative''\<rparr>,
      \<lparr>family_terms = agreement_terms, family_tone = ''cooperative'',
       family_theme = ''agreement'', family_sentiment = ''positive''\<rparr>]"

definition spec_analysis :: "string \<Rightarrow> dialogue_analysis" where
  "spec_analysis lowerText =
     (case find (\<lambda>f. regex_match (family_terms f) lowerText) spec_families of
        None \<Rightarrow> \<lparr>tone = ''neutral'', themes = [], sentiment = ''neutral''\<rparr>
      | Some f \<Rightarrow> \<lparr>tone = family_tone f, themes = [family_theme f],
                   sentiment = family_sentiment f\<rparr>)"

section \<open>Parsing the model's reply (ai_client.js)\<close>

text \<open>
  A parsed JSON value.  Numbers are integers here; only whether a number is zero
  matters to the parser.
\<close>

datatype json =
    JNull
  | JBool bool
  | JNum int
  | JStr string
  | JArr "json list"
  | JObj "(string \<times> json) list"

text \<open>
  Reading a property: of \<open>null\<close> it raises, of an object it is the member or
  \<open>undefined\<close> (\<open>None\<close>), of any other value it is \<open>undefined\<close> for the names
  the parser reads.
\<close>

definition get_prop :: "json \<Rightarrow> string \<Rightarrow> error + json option" where
  "get_prop v name =
     (case v of
        JNull \<Rightarrow> Inl TypeError
      | JObj members \<Rightarrow> Inr (map_of members name)
      | _ \<Rightarrow> Inr None)"

text \<open>Truthiness, as \<open>!x\<close> tests it.\<close>

definition truthy :: "json option \<Rightarrow> bool" where
  "truthy x =
     (case x of
        None \<Rightarrow> False
      | Some JNull \<Rightarrow> False
      | Some (JBool b) \<Rightarrow> b
      | Some (JNum n) \<Rightarrow> n \<noteq> 0
      | Some (JStr s) \<Rightarrow> s \<noteq> []
      | Some (JArr _) \<Rightarrow> True
      | Some (JObj _) \<Rightarrow> True)"

text \<open>
  The white space of \<open>String.prototype.trim\<close> and of \<open>\s\<close>: the characters
  U+0009 to U+000D, U+0020, U+00A0, U+1680, U+2000 to U+200A, U+2028, U+2029, U+202F,
  U+205F, U+3000 and U+FEFF, each as its UTF-8 bytes.
\<close>

definition white_space :: "string list" where
  "white_space =
     [[CHR 0x09], [CHR 0x0A], [CHR 0x0B], [CHR 0x0C], [CHR 0x0D], [CHR 0x20],
      [CHR 0xC2, CHR 0xA0],
      [CHR 0xE1, CHR 0x9A, CHR 0x80],
      [CHR 0xE2, CHR 0x80, CHR 0x80], [CHR 0xE2, CHR 0x80, CHR 0x81],
      [CHR 0xE2, CHR 0x80, CHR 0x82], [CHR 0xE2, CHR 0x80, CHR 0x83],
      [CHR 0xE2, CHR 0x80, CHR 0x84], [CHR 0xE2, CHR 0x80, CHR 0x85],
      [CHR 0xE2, CHR 0x80, CHR 0x86], [CHR 0xE2, CHR 0x80, CHR 0x87],
      [CHR 0xE2, CHR 0x80, CHR 0x88], [CHR 0xE2, CHR 0x80, CHR 0x89],
      [CHR 0xE2, CHR 0x80, CHR 0x8A],
      [CHR 0xE2, CHR 0x80, CHR 0xA8], [CHR 0xE2, CHR 0x80, CHR 0xA9],
      [CHR 0xE2, CHR 0x80, CHR 0xAF],
      [CHR 0xE2, CHR 0x81, CHR 0x9F],
      [CHR 0xE3, CHR 0x80, CHR 0x80],
      [CHR 0xEF, CHR 0xBB, CHR 0xBF]]"

text \<open>
  The text without the run of characters of \<open>ws\<close> that it starts with
  (\<open>\s*\<close>, which takes as many as there are).
\<close>

function skip :: "string list \<Rightarrow> string \<Rightarrow> string" where
  "skip ws [] = []"
| "skip ws (c # cs) =
     (case find (\<lambda>w. w \<noteq> [] \<and> starts_with (c # cs) w) ws of
        None \<Rightarrow> c # cs
      | Some w \<Rightarrow> skip ws (drop (length w) (c # cs)))"
  by pat_completeness auto
termination
proof (relation "measure (\<lambda>(ws, s). length s)")
  show "wf (measure (\<lambda>(ws, s). length s))"
    by simp
next
  fix ws :: "string list" and c :: char and cs w :: string
  assume "find (\<lambda>w. w \<noteq> [] \<and> starts_with (c # cs) w) ws = Some w"
  then have "w \<noteq> []"
    by (auto simp: find_Some_iff)
  then have "0 < length w"
    by simp
  then have "length (drop (length w) (c # cs)) < length (c # cs)"
    by simp
  then show "((ws, drop (length w) (c # cs)), (ws, c # cs)) \<in> measure (\<lambda>(ws, s). length s)"
    by simp
qed

text \<open>\<open>trim\<close>: the white space at both ends removed.\<close>

definition trim :: "string \<Rightarrow> string" where
  "trim s = rev (skip (map rev white_space) (rev (skip white_space s)))"

text \<open>
  \<open>text.replace(/fence\s*/g, '')\<close> for a literal \<open>fence\<close>: from left to right,
  every occurrence of the fence is removed together with the white space after it; the
  search goes on behind what was removed.
\<close>

function remove_fence :: "string \<Rightarrow> string \<Rightarrow> string" where
  "remove_fence fence [] = []"
| "remove_fence fence (c # cs) =
     (if fence \<noteq> [] \<and> starts_with (c # cs) fence
      then remove_fence fence (skip white_space (drop (length fence) (c # cs)))
      else c # remove_fence fence cs)"
  by pat_completeness auto

termination
proof (relation "measure (\<lambda>(fence, s). length s)")
  show "wf (measure (\<lambda>(fence, s). length s))"
    by simp
next
  fix fence :: string and c :: char and cs :: string
  assume "fence \<noteq> [] \<and> starts_with (c # cs) fence"
  then have pos: "0 < length fence"
    by simp
  have shorter: "length (skip ws s) \<le> length s" for ws s
  proof (induction ws s rule: skip.induct)
    case (1 ws)
    show ?case
      by simp
  next
    case (2 ws c cs)
    show ?case
    proof (cases "find (\<lambda>w. w \<noteq> [] \<and> starts_with (c # cs) w) ws")
      case None
      then show ?thesis
        by simp
    next
      case (Some w)
      then have "length (skip ws (drop (length w) (c # cs))) \<le> length (drop (length w) (c # cs))"
        by (rule 2)
      also have "\<dots> \<le> length (c # cs)"
        by simp
      finally show ?thesis
        using Some by simp
    qed
  qed
  have "length (skip white_space (drop (length fence) (c # cs)))
          \<le> length (drop (length fence) (c # cs))"
    by (rule shorter)
  also have "\<dots> < length (c # cs)"
    using pos by simp
  finally show "((fence, skip white_space (drop (length fence) (c # cs))), (fence, c # cs))
        \<in> measure (\<lambda>(fence, s). length s)"
    by simp
next
  fix fence :: string and c :: char and cs :: string
  show "((fence, cs), (fence, c # cs)) \<in> measure (\<lambda>(fence, s). length s)"
    by simp
qed

text \<open>
  The cleaning of the reply: \<open>trim\<close>, then every \<open>```json\<close> with the white space
  after it removed, then every remaining \<open>```\<close> with the white space after it
  removed, then \<open>trim\<close> again.
\<close>

definition clean_text :: "string \<Rightarrow> string" where
  "clean_text responseText =
     trim (remove_fence ''```'' (remove_fence ''```json'' (trim responseText)))"

text \<open>The fixed neutral reply of the \<open>catch\<close> block.\<close>

definition fallback_response :: json where
  "fallback_response =
     JObj [(''response'', JStr (''Anteeksi, en voi nyt keskustella. Jatketaan my''
                                  @ o_uml @ ''hemmin.'')),
           (''analysis'', JObj [(''overall_tone'', JArr [JStr ''neutral'']),
                                (''detected_stance_towards_russia'', JStr ''neutral''),
                                (''cooperativeness'', JStr ''medium'')])]"

text \<open>
  The \<open>try\<close> block of \<open>parseResponse\<close>; \<open>JSON_parse\<close> is the runtime's
  \<open>JSON.parse\<close>, \<open>None\<close> where it throws a \<open>SyntaxError\<close>.  In
  \<open>!parsed.response || !parsed.analysis\<close> the second read happens only when the
  first value is truthy, and likewise for the two analysis fields.
\<close>

definition parse_try :: "(string \<Rightarrow> json option) \<Rightarrow> string \<Rightarrow> error + json" where
  "parse_try JSON_parse responseText =
     (case JSON_parse (clean_text responseText) of
        None \<Rightarrow> Inl SyntaxError
      | Some parsed \<Rightarrow>
          (case get_prop parsed ''response'' of
             Inl e \<Rightarrow> Inl e
           | Inr response \<Rightarrow>
               if \<not> truthy response then Inl (InvalidResponse ''Invalid response structure'')
               else
                 (case get_prop parsed ''analysis'' of
                    Inl e \<Rightarrow> Inl e
                  | Inr analysis \<Rightarrow>
                      if \<not> truthy analysis
                      then Inl (InvalidResponse ''Invalid response structure'')
                      else
                        (case get_prop (the analysis) ''overall_tone'' of
                           Inl e \<Rightarrow> Inl e
                         | Inr overall_tone \<Rightarrow>
                             if \<not> truthy overall_tone
                             then Inl (InvalidResponse ''Missing required analysis fields'')
                             else
                               (case get_prop (the analysis) ''detected_stance_towards_russia'' of
                                  Inl e \<Rightarrow> Inl e
                                | Inr stance \<Rightarrow>
                                    if \<not> truthy stance
                                    then Inl (InvalidResponse ''Missing required analysis fields'')
                                    else Inr parsed)))))"

text \<open>\<open>parseResponse\<close>: whatever the \<open>try\<close> block throws is caught.\<close>

definition parseResponse :: "(string \<Rightarrow> json option) \<Rightarrow> string \<Rightarrow> json" where
  "parseResponse JSON_parse responseText =
     (case parse_try JSON_parse responseText of
        Inl e \<Rightarrow> fallback_response
      | Inr parsed \<Rightarrow> parsed)"

text \<open>A member of a parsed value that is an object; anything else has no members.\<close>

definition member_of :: "json \<Rightarrow> string \<Rightarrow> json option" where
  "member_of v name = (case v of JObj members \<Rightarrow> map_of members name | _ \<Rightarrow> None)"

section \<open>Example content\<close>

text \<open>
  A scene of the diplomacy module with three AI dialogue mappings; the second and the
  third both match a loyal analysis.
\<close>

definition example_mappings :: "mapping list" where
  "example_mappings =
     [\<lparr>condition = [(''overall_tone'', ExpArray [''critical''])],
       mapping_effects = \<lparr>eff_factions = None, eff_player_traits = None,
         eff_npc_opinions = Some [(''trepov'', - 10)], eff_flags = None\<rparr>\<rparr>,
      \<lparr>condition = [(''overall_tone'', ExpArray [''loyal'', ''neutral''])],
       mapping_effects = \<lparr>eff_factions = Some [(''RUS'', 3)], eff_player_traits = None,
         eff_npc_opinions = Some [(''trepov'', 5)], eff_flags = None\<rparr>\<rparr>,
      \<lparr>condition = [(''overall_tone'', ExpArray [''loyal''])],
       mapping_effects = \<lparr>eff_factions = Some [(''RUS'', 9)], eff_player_traits = None,
         eff_npc_opinions = None, eff_flags = None\<rparr>\<rparr>]"

definition example_act :: act where
  "example_act = \<lparr>scene = ''2_trepov_meeting'', ai_dialogue = Some example_mappings\<rparr>"

text \<open>
  A rules table with an entry for one character only, a game state and a computed
  delta that carry one opinion each.
\<close>

definition example_rules :: "npc_rule obj" where
  "example_rules = [(''trepov'', \<lparr>fallback_rule = Some ''offer a formal apology''\<rparr>)]"

definition example_state :: "string \<Rightarrow> int \<Rightarrow> game_state" where
  "example_state npcId opinion =
     \<lparr>factions = [(''RUS'', Num 5)], player_traits = [(''INDEPENDENCE'', Num 2)],
      npc_opinions = [(npcId, Num opinion)], flags = []\<rparr>"

definition example_delta :: "string \<Rightarrow> int \<Rightarrow> effects" where
  "example_delta npcId d =
     \<lparr>eff_factions = Some [(''RUS'', 3)], eff_player_traits = Some [],
      eff_npc_opinions = Some [(npcId, d)], eff_flags = Some []\<rparr>"

text \<open>
  A small state graph: a system entry state that advances by itself, a scene with two
  choices and no transitions, a scene whose only choice has an empty target, an exit,
  and a hub with a dialogue to offer.
\<close>

definition example_states :: "node obj" where
  "example_states =
     [(''start'', \<lparr>node_type = ''system'', choices = None,
          transitions = Some [\<lparr>transition_to = ''scene_1''\<rparr>], node_ai_dialogue = None\<rparr>),
      (''scene_1'', \<lparr>node_type = ''scene'',
          choices = Some [\<lparr>choice_id = ''a'', choice_next = ''X''\<rparr>,
                          \<lparr>choice_id = ''b'', choice_next = ''Y''\<rparr>],
          transitions = None, node_ai_dialogue = None\<rparr>),
      (''Y'', \<lparr>node_type = ''scene'',
          choices = Some [\<lparr>choice_id = ''a'', choice_next = ''''\<rparr>],
          transitions = None, node_ai_dialogue = None\<rparr>),
      (''X'', \<lparr>node_type = ''system'', choices = None, transitions = None,
          node_ai_dialogue = None\<rparr>),
      (''hub_1'', \<lparr>node_type = ''hub'', choices = None,
          transitions = Some [\<lparr>transition_to = ''X''\<rparr>],
          node_ai_dialogue = Some ''trepov''\<rparr>)]"

definition example_machine :: "string \<Rightarrow> machine" where
  "example_machine cursor = new_machine example_states ''start'' ''X'' \<lparr>currentState := cursor\<rparr>"



text \<open>A lower-casing of the ASCII letters.\<close>

definition example_toLowerCase :: "string \<Rightarrow> string" where
  "example_toLowerCase s =
     map (\<lambda>c. case map_of (zip ''ABCDEFGHIJKLMNOPQRSTUVWXYZ'' ''abcdefghijklmnopqrstuvwxyz'') c of
                 None \<Rightarrow> c
               | Some l \<Rightarrow> l) s"

text \<open>
  Three JSON texts and the values that \<open>JSON.parse\<close> gives for them: the empty
  object, a complete reply, and a reply whose analysis has no \<open>overall_tone\<close>.
  \<open>quoted\<close> puts a string between double quotes.
\<close>

definition quoted :: "string \<Rightarrow> string" where
  "quoted s = [CHR 0x22] @ s @ [CHR 0x22]"

definition example_reply :: json where
  "example_reply =
     JObj [(''response'', JStr ''Hyva on.''),
           (''analysis'', JObj [(''overall_tone'', JArr [JStr ''loyal'']),
                                (''detected_stance_towards_russia'', JStr ''positive''),
                                (''cooperativeness'', JStr ''high'')])]"

definition example_reply_text :: string where
  "example_reply_text =
     ''{'' @ quoted ''response'' @ '':'' @ quoted ''Hyva on.'' @ '','' @ quoted ''analysis'' @ '':{''
       @ quoted ''overall_tone'' @ '':['' @ quoted ''loyal'' @ ''],''
       @ quoted ''detected_stance_towards_russia'' @ '':'' @ quoted ''positive'' @ '',''
       @ quoted ''cooperativeness'' @ '':'' @ quoted ''high'' @ ''}}''"

definition example_toneless :: json where
  "example_toneless =
     JObj [(''response'', JStr ''Hyva on.''),
           (''analysis'', JObj [(''detected_stance_towards_russia'', JStr ''positive'')])]"

definition example_toneless_text :: string where
  "example_toneless_text =
     ''{'' @ quoted ''response'' @ '':'' @ quoted ''Hyva on.'' @ '','' @ quoted ''analysis'' @ '':{''
       @ quoted ''detected_stance_towards_russia'' @ '':'' @ quoted ''positive'' @ ''}}''"

text \<open>
  A parser that agrees with \<open>JSON.parse\<close> on the texts the examples give it: these
  three, and a sentence that is no JSON text.  It knows no other text.
\<close>

definition example_JSON_parse :: "string \<Rightarrow> json option" where
  "example_JSON_parse s =
     (if s = ''{}'' then Some (JObj [])
      else if s = example_reply_text then Some example_reply
      else if s = example_toneless_text then Some example_toneless
      else None)"

section \<open>Properties of the numbers\<close>

lemma significand_shift_small: "n < 2 ^ 53 \<Longrightarrow> significand_shift n = 0"
  by (simp add: significand_shift.simps)

lemma round_to_double_exact: "n < 2 ^ 53 \<Longrightarrow> round_to_double n = n"
  by (simp add: round_to_double_def significand_shift_small)

lemma significand_kept: "2 ^ 52 \<le> n \<Longrightarrow> 2 ^ 52 \<le> n div 2 ^ significand_shift n"
proof (induction n rule: significand_shift.induct)
  case (1 n)
  show ?case
  proof (cases "n < 2 ^ 53")
    case True
    then show ?thesis
      using "1.prems" by (simp add: significand_shift_small)
  next
    case False
    then have half: "(2 :: nat) ^ 52 \<le> n div 2"
      by simp
    have "significand_shift n = Suc (significand_shift (n div 2))"
      using False by (simp add: significand_shift.simps)
    then have "n div 2 ^ significand_shift n = (n div 2) div 2 ^ significand_shift (n div 2)"
      by (simp add: div_mult2_eq)
    then show ?thesis
      using "1.IH"[OF False half] by simp
  qed
qed

lemma round_to_double_large:
  assumes "2 ^ 53 \<le> n"
  shows "2 ^ 53 \<le> round_to_double n"
proof -
  let ?e = "significand_shift n"
  let ?q = "n div 2 ^ ?e"
  from assms have "\<not> n < 2 ^ 53"
    by simp
  then have "?e = Suc (significand_shift (n div 2))"
    by (simp add: significand_shift.simps)
  then have e: "(2 :: nat) \<le> 2 ^ ?e"
    by simp
  from assms have "(2 :: nat) ^ 52 \<le> n"
    by simp
  then have q: "2 ^ 52 \<le> ?q"
    by (rule significand_kept)
  have "(2 :: nat) ^ 53 = 2 ^ 52 * 2"
    by simp
  also have "\<dots> \<le> ?q * 2 ^ ?e"
    using q e by (rule mult_le_mono)
  finally have low: "2 ^ 53 \<le> ?q * 2 ^ ?e" .
  have "?q * 2 ^ ?e \<le> round_to_double n"
    by (simp add: round_to_double_def Let_def)
  with low show ?thesis
    by (rule order_trans)
qed

lemma to_double_exact: "\<bar>z\<bar> < 2 ^ 53 \<Longrightarrow> to_double z = Num z"
proof -
  assume a: "\<bar>z\<bar> < 2 ^ 53"
  then have n: "nat \<bar>z\<bar> < 2 ^ 53"
    by (simp add: nat_less_iff)
  have "(2 :: nat) ^ 53 \<le> 2 ^ 1024"
    by (rule power_increasing) simp_all
  with n have "\<not> (2 :: nat) ^ 1024 \<le> nat \<bar>z\<bar>"
    by linarith
  then show ?thesis
    using n by (simp add: to_double_def round_to_double_exact Let_def)
qed

text \<open>
  Beyond the exact range the rounded sum keeps its sign and stays beyond the range, so
  a comparison with a small literal and the clamp see what the exact sum would show.
\<close>

lemma to_double_large_pos:
  assumes "2 ^ 53 \<le> z"
  shows "to_double z = PosInf \<or> (\<exists>m. to_double z = Num m \<and> 2 ^ 53 \<le> m)"
proof -
  from assms have "(2 :: nat) ^ 53 \<le> nat \<bar>z\<bar>"
    by (simp add: le_nat_iff)
  then have "2 ^ 53 \<le> round_to_double (nat \<bar>z\<bar>)"
    by (rule round_to_double_large)
  then have "(2 :: int) ^ 53 \<le> int (round_to_double (nat \<bar>z\<bar>))"
    by (metis of_nat_le_iff of_nat_numeral of_nat_power)
  moreover have "\<not> z < 0"
    using assms by (smt (verit) zero_less_power)
  ultimately show ?thesis
    by (simp add: to_double_def Let_def)
qed

lemma to_double_large_neg:
  assumes "z \<le> - (2 ^ 53)"
  shows "to_double z = NegInf \<or> (\<exists>m. to_double z = Num m \<and> m \<le> - (2 ^ 53))"
proof -
  from assms have "(2 :: nat) ^ 53 \<le> nat \<bar>z\<bar>"
    by (simp add: le_nat_iff)
  then have "2 ^ 53 \<le> round_to_double (nat \<bar>z\<bar>)"
    by (rule round_to_double_large)
  then have "(2 :: int) ^ 53 \<le> int (round_to_double (nat \<bar>z\<bar>))"
    by (metis of_nat_le_iff of_nat_numeral of_nat_power)
  moreover have "z < 0"
    using assms by (smt (verit) zero_less_power)
  ultimately show ?thesis
    by (simp add: to_double_def Let_def)
qed

lemma to_double_cases:
  "(\<bar>z\<bar> < 2 ^ 53 \<and> to_double z = Num z)
   \<or> (2 ^ 53 \<le> z \<and> (to_double z = PosInf \<or> (\<exists>m. to_double z = Num m \<and> 2 ^ 53 \<le> m)))
   \<or> (z \<le> - (2 ^ 53) \<and> (to_double z = NegInf \<or> (\<exists>m. to_double z = Num m \<and> m \<le> - (2 ^ 53))))"
proof -
  consider "\<bar>z\<bar> < 2 ^ 53" | "2 ^ 53 \<le> z" | "z \<le> - (2 ^ 53)"
    by linarith
  then show ?thesis
    using to_double_exact to_double_large_pos to_double_large_neg by cases blast+
qed

lemma js_lt_to_double:
  assumes "- (2 ^ 53) < t" and "t \<le> 2 ^ 53"
  shows "js_lt (to_double z) t \<longleftrightarrow> z < t"
  using to_double_cases[of z] assms by (elim disjE conjE exE) auto

lemma clamp100_to_double: "clamp100 (to_double z) = Num (max (- 100) (min 100 z))"
  using to_double_cases[of z] by (elim disjE conjE exE) auto

section \<open>Properties of the diplomacy state\<close>

lemma js_get_own: "map_of m k = Some v \<Longrightarrow> js_get m k = Own v"
  by (simp add: js_get_def)

lemma js_get_plain: "k \<notin> set object_prototype_members \<Longrightarrow> map_of m k = None \<Longrightarrow> js_get m k = Undefined"
  by (simp add: js_get_def)

lemma js_get_js_set:
  "js_get (js_set k' v m) k =
     (if k = k' \<and> \<not> (k' = ''__proto__'' \<and> map_of m k' = None) then Own v else js_get m k)"
  by (auto simp: js_get_def js_set_def update_conv')

lemma js_set_own:
  "\<not> (k = ''__proto__'' \<and> map_of m k = None) \<Longrightarrow> js_set k v m = AList.update k v m"
  by (auto simp: js_set_def)

lemma js_get_update: "js_get (AList.update k v m) k = Own v"
  by (simp add: js_get_def update_conv')

lemma in_range_update:
  "in_range m \<Longrightarrow> value_in_range v \<Longrightarrow> in_range (AList.update k v m)"
  by (induction m) (auto simp: in_range_def)

lemma in_range_js_set:
  "in_range m \<Longrightarrow> value_in_range v \<Longrightarrow> in_range (js_set k v m)"
  by (simp add: js_set_def in_range_update)

lemma in_range_stored:
  assumes "in_range m" and "map_of m k = Some v"
  shows "value_in_range v"
proof -
  from assms(2) have "(k, v) \<in> set m"
    by (rule map_of_SomeD)
  with assms(1) show ?thesis
    by (force simp: in_range_def list_all_iff)
qed

lemma proto_inherited: "map_of m ''__proto__'' = None \<Longrightarrow> js_get m ''__proto__'' = Inherited"
  by (simp add: js_get_def object_prototype_members_def)

lemma value_in_range_clamp: "value_in_range (clamp100 (to_double z))"
  by (simp add: clamp100_to_double)

text \<open>One round of the clamped loop on a key that is no name of an inherited member.\<close>

lemma add_clamped_step_in_range:
  assumes "in_range m" and "k \<notin> set object_prototype_members"
  shows "in_range (js_set k (clamp100 (read_value (js_get (js_set k (js_add (or_zero (js_get m k)) (Num v)) m) k)))
                    (js_set k (js_add (or_zero (js_get m k)) (Num v)) m))"
proof -
  have "\<exists>c. or_zero (js_get m k) = Num c"
  proof (cases "map_of m k")
    case None
    then show ?thesis
      using assms(2) by (simp add: js_get_def)
  next
    case (Some x)
    with assms(1) have "value_in_range x"
      by (rule in_range_stored)
    then show ?thesis
      using Some by (cases x) (simp_all add: js_get_def)
  qed
  then obtain c where c: "or_zero (js_get m k) = Num c"
    by blast
  have np: "k \<noteq> ''__proto__''"
    using assms(2) by (auto simp: object_prototype_members_def)
  have m1: "js_set k (js_add (or_zero (js_get m k)) (Num v)) m = AList.update k (to_double (c + v)) m"
    using np by (simp add: c js_set_def)
  have rd: "js_get (AList.update k (to_double (c + v)) m) k = Own (to_double (c + v))"
    by (simp add: js_get_def update_conv')
  have m2: "js_set k (clamp100 (to_double (c + v))) (AList.update k (to_double (c + v)) m)
              = AList.update k (clamp100 (to_double (c + v))) m"
    using np by (simp add: js_set_def)
  have "in_range (AList.update k (clamp100 (to_double (c + v))) m)"
    using assms(1) value_in_range_clamp by (rule in_range_update)
  then show ?thesis
    by (simp only: m1 rd read_value.simps m2)
qed

lemma in_range_add_clamped:
  "in_range m \<Longrightarrow> plain_keys es \<Longrightarrow> in_range (add_clamped m es)"
proof (induction es arbitrary: m)
  case Nil
  then show ?case by simp
next
  case (Cons e es)
  obtain k v where e: "e = (k, v)" by (cases e)
  from Cons.prems(2) have k: "k \<notin> set object_prototype_members" and rest: "plain_keys es"
    by (simp_all add: plain_keys_def e)
  have "in_range (add_clamped
          (js_set k (clamp100 (read_value (js_get (js_set k (js_add (or_zero (js_get m k)) (Num v)) m) k)))
                    (js_set k (js_add (or_zero (js_get m k)) (Num v)) m)) es)"
    using add_clamped_step_in_range[OF Cons.prems(1) k] rest by (rule Cons.IH)
  then show ?case
    by (simp add: e Let_def)
qed

lemma in_range_zero_all: "in_range m \<Longrightarrow> in_range (zero_all m ks)"
  by (induction ks arbitrary: m) (simp_all add: in_range_js_set)

lemma in_range_Nil: "in_range []"
  by (simp add: in_range_def)

lemma in_range_initial:
  "in_range (factions (initializeGameState factionIds))"
  "in_range (npc_opinions (initializeGameState factionIds))"
  by (simp_all add: initializeGameState_def in_range_zero_all in_range_Nil)

lemma in_range_applyEffects:
  "plain_effects e \<Longrightarrow> in_range (factions s) \<Longrightarrow> in_range (factions (applyEffects s e))"
  "plain_effects e \<Longrightarrow> in_range (npc_opinions s) \<Longrightarrow> in_range (npc_opinions (applyEffects s e))"
  by (simp_all add: applyEffects_def plain_effects_def in_range_add_clamped split: option.splits)

lemma in_range_applyEffects_all:
  "list_all plain_effects es \<Longrightarrow> in_range (factions s) \<Longrightarrow> in_range (npc_opinions s) \<Longrightarrow>
   in_range (factions (applyEffects_all s es)) \<and> in_range (npc_opinions (applyEffects_all s es))"
  by (induction es arbitrary: s) (simp_all add: in_range_applyEffects)

text \<open>
  From the initial state, as long as no faction or opinion key of an effect is the name
  of a member of \<open>Object.prototype\<close>, every faction value and every opinion is a
  number in \<open>[-100, 100]\<close> after each call.
\<close>

lemma applyEffects_keeps_plain_bounds:
  assumes "list_all plain_effects es"
  shows "in_range (factions (applyEffects_all (initializeGameState factionIds) es))"
    and "in_range (npc_opinions (applyEffects_all (initializeGameState factionIds) es))"
  using in_range_applyEffects_all[OF assms in_range_initial(1) in_range_initial(2)]
  by simp_all

text \<open>
  The clamped loop on one key: the other keys of the list do not touch it, and a key
  whose current value reads as the number \<open>c\<close> ends at the clamped sum.
\<close>

lemma add_clamped_other:
  "map_of es k = None \<Longrightarrow> js_get (add_clamped m es) k = js_get m k"
proof (induction es arbitrary: m)
  case Nil
  then show ?case by simp
next
  case (Cons e es)
  obtain a b where e: "e = (a, b)" by (cases e)
  from Cons.prems have ne: "k \<noteq> a" and rest: "map_of es k = None"
    by (auto simp: e split: if_splits)
  show ?case
    by (simp add: e Let_def Cons.IH[OF rest] js_get_js_set ne)
qed

lemma add_clamped_key:
  assumes "distinct (map fst es)" and "map_of es k = Some v"
      and "or_zero (js_get m k) = Num c"
  shows "js_get (add_clamped m es) k = Own (Num (max (- 100) (min 100 (c + v))))"
  using assms
proof (induction es arbitrary: m)
  case Nil
  then show ?case by simp
next
  case (Cons e es)
  obtain a b where e: "e = (a, b)" by (cases e)
  from Cons.prems(1) have d: "distinct (map fst es)" and na: "a \<notin> fst ` set es"
    by (auto simp: e)
  let ?m1 = "js_set a (js_add (or_zero (js_get m a)) (Num b)) m"
  let ?m2 = "js_set a (clamp100 (read_value (js_get ?m1 a))) ?m1"
  have unfold: "add_clamped m (e # es) = add_clamped ?m2 es"
    by (simp add: e Let_def)
  show ?case
  proof (cases "k = a")
    case True
    with Cons.prems(2) have v: "v = b"
      by (simp add: e)
    from na True have none: "map_of es k = None"
      by (simp add: map_of_eq_None_iff)
    have own: "\<not> (a = ''__proto__'' \<and> map_of m a = None)"
    proof
      assume h: "a = ''__proto__'' \<and> map_of m a = None"
      then have "map_of m ''__proto__'' = None"
        by auto
      then have "js_get m ''__proto__'' = Inherited"
        by (rule proto_inherited)
      with h True have "js_get m k = Inherited"
        by auto
      with Cons.prems(3) show False
        by simp
    qed
    have cur: "or_zero (js_get m a) = Num c"
      using Cons.prems(3) True by simp
    have s1: "?m1 = AList.update a (to_double (c + b)) m"
      using own by (simp add: cur js_set_own)
    have g1: "js_get ?m1 a = Own (to_double (c + b))"
      by (simp only: s1 js_get_update)
    have s2: "?m2 = AList.update a (clamp100 (to_double (c + b))) ?m1"
      by (simp only: g1 read_value.simps) (simp add: s1 js_set_own update_conv')
    have g2: "js_get ?m2 a = Own (clamp100 (to_double (c + b)))"
      by (simp only: s2 js_get_update)
    have "js_get (add_clamped ?m2 es) k = js_get ?m2 k"
      using none by (rule add_clamped_other)
    also have "\<dots> = Own (Num (max (- 100) (min 100 (c + v))))"
      by (simp only: True v g2 clamp100_to_double)
    finally show ?thesis
      by (simp only: unfold)
  next
    case False
    with Cons.prems(2) have rest: "map_of es k = Some v"
      by (simp add: e)
    have "or_zero (js_get ?m2 k) = Num c"
      using False Cons.prems(3) by (simp add: js_get_js_set)
    then show ?thesis
      using Cons.IH[OF d rest] by (simp add: unfold)
  qed
qed

text \<open>
  The loop over player traits stores the sum as it is: a trait that reads as the number
  \<open>c\<close> and gets the delta \<open>v\<close> holds the double nearest to \<open>c + v\<close>, with no
  clamp; from 90 a delta of 30 gives 120.  Flags are assigned as they come.
\<close>

lemma add_plain_single:
  assumes "or_zero (js_get m k) = Num c"
  shows "js_get (add_plain m [(k, v)]) k = Own (to_double (c + v))"
proof -
  have own: "\<not> (k = ''__proto__'' \<and> map_of m k = None)"
  proof
    assume h: "k = ''__proto__'' \<and> map_of m k = None"
    then have "map_of m ''__proto__'' = None"
      by auto
    then have "js_get m ''__proto__'' = Inherited"
      by (rule proto_inherited)
    with h have "js_get m k = Inherited"
      by auto
    with assms show False
      by simp
  qed
  have "add_plain m [(k, v)] = AList.update k (to_double (c + v)) m"
    using own by (simp add: assms js_set_own)
  then show ?thesis
    by (simp only: js_get_update)
qed

lemma trait_not_clamped:
  "player_traits (applyEffects
      \<lparr>factions = [], player_traits = [(''INDEPENDENCE'', Num 90)], npc_opinions = [],
       flags = []\<rparr>
      \<lparr>eff_factions = None, eff_player_traits = Some [(''INDEPENDENCE'', 30)],
       eff_npc_opinions = None, eff_flags = Some [(''met_trepov'', FlagBool True)]\<rparr>)
     = [(''INDEPENDENCE'', Num 120)]
   \<and> flags (applyEffects
      \<lparr>factions = [], player_traits = [(''INDEPENDENCE'', Num 90)], npc_opinions = [],
       flags = []\<rparr>
      \<lparr>eff_factions = None, eff_player_traits = Some [(''INDEPENDENCE'', 30)],
       eff_npc_opinions = None, eff_flags = Some [(''met_trepov'', FlagBool True)]\<rparr>)
     = [(''met_trepov'', FlagBool True)]"
  by (simp add: applyEffects_def js_get_def js_set_def to_double_exact)

text \<open>
  Claim C1, at the input where the code breaks it.  The initial state knows the faction
  \<open>RUS\<close> only.  An effect on a faction named \<open>constructor\<close> reads the member that
  every object inherits under that name: \<open>inherited || 0\<close> is the member,
  \<open>member + 5\<close> is a string, and the clamp of a string is \<open>NaN\<close>.  The value stored for
  the faction is \<open>NaN\<close>, which is not in \<open>[-100, 100]\<close>.
\<close>

theorem applyEffects_inherited_key:
  "factions (applyEffects (initializeGameState [''RUS''])
       \<lparr>eff_factions = Some [(''constructor'', 5)], eff_player_traits = None,
        eff_npc_opinions = None, eff_flags = None\<rparr>)
     = [(''RUS'', Num 0), (''constructor'', NaN)]
   \<and> \<not> in_range (factions (applyEffects (initializeGameState [''RUS''])
       \<lparr>eff_factions = Some [(''constructor'', 5)], eff_player_traits = None,
        eff_npc_opinions = None, eff_flags = None\<rparr>))"
  by (simp add: applyEffects_def initializeGameState_def js_get_def js_set_def
      object_prototype_members_def in_range_def Let_def)

section \<open>Properties of the AI dialogue rule lookup\<close>

lemma key_matches_undefined: "\<not> key_matches ev None"
  by (cases ev) (auto simp: list_ex_iff)

lemma key_matches_array:
  "key_matches (ExpArray evs) actual = spec_key_matches (ExpArray evs) actual"
proof (cases actual)
  case None
  then show ?thesis
    by (simp add: spec_key_matches_def list_ex_iff)
next
  case (Some a)
  then show ?thesis
    by (cases a) (auto simp: spec_key_matches_def spec_expected_values_def list_ex_iff)
qed

lemma matchesCondition_all:
  "matchesCondition c a \<longleftrightarrow> (\<forall>(k, ev) \<in> set c. key_matches ev (map_of a k))"
  by (induction c) (auto split: if_splits)

lemma first_matching_find:
  "first_matching ms a =
     (case find (\<lambda>m. matchesCondition (condition m) a) ms of
        None \<Rightarrow> getDefaultEffects
      | Some m \<Rightarrow>
          \<lparr> eff_factions = or_empty (eff_factions (mapping_effects m)),
            eff_player_traits = or_empty (eff_player_traits (mapping_effects m)),
            eff_npc_opinions = or_empty (eff_npc_opinions (mapping_effects m)),
            eff_flags = or_empty (eff_flags (mapping_effects m)) \<rparr>)"
  by (induction ms) auto

text \<open>
  Claim C2, as the code has it.  For a scene that declares AI dialogue mappings, the
  lookup returns the effects of the first mapping in document order whose condition
  matches (absent sub-maps read as empty), and the default effects with four empty
  sub-maps when none matches.  A condition matches iff every one of its keys matches.
  A key with an array of expected values matches as the specification says: the
  analysis value, or some element of a list-valued analysis value, is one of the
  expected values.  A key with a single expected value matches only an analysis value
  that is this very string: a list-valued analysis value never matches it, an absent
  one neither.
\<close>

theorem calculateDiplomacyEffects_first_match:
  "(find (\<lambda>a. scene a = sceneId) acts = Some sc \<and> ai_dialogue sc = Some mappings \<longrightarrow>
      calculateDiplomacyEffects acts npcId sceneId analysis gameState =
        (case find (\<lambda>m. matchesCondition (condition m) analysis) mappings of
           None \<Rightarrow>
             \<lparr> eff_factions = Some [], eff_player_traits = Some [],
               eff_npc_opinions = Some [], eff_flags = Some [] \<rparr>
         | Some m \<Rightarrow>
             \<lparr> eff_factions = or_empty (eff_factions (mapping_effects m)),
               eff_player_traits = or_empty (eff_player_traits (mapping_effects m)),
               eff_npc_opinions = or_empty (eff_npc_opinions (mapping_effects m)),
               eff_flags = or_empty (eff_flags (mapping_effects m)) \<rparr>))
   \<and> (matchesCondition cond analysis \<longleftrightarrow>
        (\<forall>(key, ev) \<in> set cond. key_matches ev (map_of analysis key)))
   \<and> key_matches (ExpArray evs) actual = spec_key_matches (ExpArray evs) actual
   \<and> key_matches (ExpScalar e) (Some (AStr s)) = spec_key_matches (ExpScalar e) (Some (AStr s))
   \<and> \<not> key_matches (ExpScalar e) (Some (AStrList vs))
   \<and> \<not> key_matches ev None"
proof -
  have "find (\<lambda>a. scene a = sceneId) acts = Some sc \<and> ai_dialogue sc = Some mappings \<longrightarrow>
      calculateDiplomacyEffects acts npcId sceneId analysis gameState =
        (case find (\<lambda>m. matchesCondition (condition m) analysis) mappings of
           None \<Rightarrow>
             \<lparr> eff_factions = Some [], eff_player_traits = Some [],
               eff_npc_opinions = Some [], eff_flags = Some [] \<rparr>
         | Some m \<Rightarrow>
             \<lparr> eff_factions = or_empty (eff_factions (mapping_effects m)),
               eff_player_traits = or_empty (eff_player_traits (mapping_effects m)),
               eff_npc_opinions = or_empty (eff_npc_opinions (mapping_effects m)),
               eff_flags = or_empty (eff_flags (mapping_effects m)) \<rparr>)"
    by (simp add: calculateDiplomacyEffects_def first_matching_find getDefaultEffects_def split: option.splits)
  moreover have "key_matches (ExpScalar e) (Some (AStr s)) = spec_key_matches (ExpScalar e) (Some (AStr s))"
    by (auto simp: spec_key_matches_def spec_expected_values_def)
  moreover have "\<not> key_matches (ExpScalar e) (Some (AStrList vs))"
    by simp
  ultimately show ?thesis
    using matchesCondition_all[of cond analysis] key_matches_array[of evs actual]
      key_matches_undefined[of ev]
    by blast
qed

theorem calculateDiplomacyEffects_first_match_witness:
  "calculateDiplomacyEffects [example_act] ''trepov'' ''2_trepov_meeting''
      [(''overall_tone'', AStrList [''loyal'']), (''cooperativeness'', AStr ''high'')]
      (initializeGameState [''RUS''])
    = \<lparr>eff_factions = Some [(''RUS'', 3)], eff_player_traits = Some [],
       eff_npc_opinions = Some [(''trepov'', 5)], eff_flags = Some []\<rparr>
   \<and> matchesCondition [(''overall_tone'', ExpArray [''loyal'', ''neutral''])]
        [(''overall_tone'', AStrList [''loyal''])]
   \<and> \<not> matchesCondition [(''overall_tone'', ExpArray [''loyal'', ''neutral''])]
        [(''overall_tone'', AStrList [''critical''])]"
proof -
  have "find (\<lambda>a. scene a = ''2_trepov_meeting'') [example_act] = Some example_act
      \<and> ai_dialogue example_act = Some example_mappings"
    by (simp add: example_act_def)
  then have "calculateDiplomacyEffects [example_act] ''trepov'' ''2_trepov_meeting''
      [(''overall_tone'', AStrList [''loyal'']), (''cooperativeness'', AStr ''high'')]
      (initializeGameState [''RUS''])
    = \<lparr>eff_factions = Some [(''RUS'', 3)], eff_player_traits = Some [],
       eff_npc_opinions = Some [(''trepov'', 5)], eff_flags = Some []\<rparr>"
    using calculateDiplomacyEffects_first_match[THEN conjunct1, rule_format,
        of "''2_trepov_meeting''" "[example_act]" example_act example_mappings]
    by (simp add: example_mappings_def or_empty_def)
  then show ?thesis
    by simp
qed

text \<open>
  The claim as stated fails where a condition gives a single expected value and the
  analysis value is a list holding it: the specification's match-any reading accepts,
  the code rejects, and the lookup falls through to the default effects.
\<close>

theorem scalar_expected_list_actual_counterexample:
  "spec_matchesCondition [(''overall_tone'', ExpScalar ''loyal'')] [(''overall_tone'', AStrList [''loyal''])]
   \<and> \<not> matchesCondition [(''overall_tone'', ExpScalar ''loyal'')] [(''overall_tone'', AStrList [''loyal''])]
   \<and> calculateDiplomacyEffects
        [\<lparr>scene = ''2_trepov_meeting'', ai_dialogue = Some
           [\<lparr>condition = [(''overall_tone'', ExpScalar ''loyal'')],
             mapping_effects = \<lparr>eff_factions = Some [(''RUS'', 3)], eff_player_traits = None,
               eff_npc_opinions = Some [(''trepov'', 5)], eff_flags = None\<rparr>\<rparr>]\<rparr>]
        ''trepov'' ''2_trepov_meeting'' [(''overall_tone'', AStrList [''loyal''])] (initializeGameState [])
      = \<lparr>eff_factions = Some [], eff_player_traits = Some [],
         eff_npc_opinions = Some [], eff_flags = Some []\<rparr>"
  by (simp add: spec_matchesCondition_def spec_key_matches_def spec_expected_values_def
      calculateDiplomacyEffects_def getDefaultEffects_def)

section \<open>Properties of the anti-spiral guard\<close>

text \<open>
  When the opinion and the delta read as the numbers \<open>c\<close> and \<open>d\<close>, the predicted
  opinion is the double nearest to \<open>c + d\<close>, and it is below a threshold exactly when
  \<open>c + d\<close> is.
\<close>

lemma predicted_number:
  assumes "or_zero (js_get (npc_opinions gameState) npcId) = Num c"
      and "map_of ops npcId = Some d"
  shows "predictedOpinion gameState ops npcId = to_double (c + d)"
  using assms by (simp add: predictedOpinion_def js_get_own)

lemma predicted_below:
  assumes "or_zero (js_get (npc_opinions gameState) npcId) = Num c"
      and "map_of ops npcId = Some d"
  shows "js_lt (predictedOpinion gameState ops npcId) (- 40) \<longleftrightarrow> c + d < - 40"
    and "js_lt (predictedOpinion gameState ops npcId) (- 80) \<longleftrightarrow> c + d < - 80"
  by (simp_all add: predicted_number[OF assms] js_lt_to_double)

lemma js_lt_mono: "js_lt x (- 80) \<Longrightarrow> js_lt x (- 40)"
  by (cases x) simp_all

lemma guarded_result:
  assumes "js_get npc_rules npcId \<noteq> Undefined"
      and "eff_npc_opinions effects = Some ops"
      and "map_of ops npcId = Some d" and "d < 0"
  shows "applyFallbackProtections npc_rules npcId effects gameState =
           Inr (effects\<lparr>eff_npc_opinions := Some
             (if js_lt (predictedOpinion gameState ops npcId) (- 80) then AList.update npcId 0 ops
              else if js_lt (predictedOpinion gameState ops npcId) (- 40)
                then AList.update npcId (max d (- 3)) ops
              else ops)\<rparr>)"
proof -
  have m: "map_of (AList.update npcId (max d (- 3)) ops) npcId = Some (max d (- 3))"
    by (simp add: update_conv')
  have n: "neutralize npcId (AList.update npcId (max d (- 3)) ops) = AList.update npcId 0 ops"
    using m assms(4) by (simp add: neutralize_def)
  have s: "soften npcId ops = AList.update npcId (max d (- 3)) ops"
    using assms(3,4) by (simp add: soften_def)
  show ?thesis
    using assms(1,2) js_lt_mono[of "predictedOpinion gameState ops npcId"]
    by (cases "js_get npc_rules npcId")
       (auto simp: applyFallbackProtections_def Let_def s n)
qed

lemma unguarded_result:
  assumes "eff_npc_opinions effects = Some ops"
      and "map_of ops npcId = None \<or> (\<exists>d. map_of ops npcId = Some d \<and> 0 \<le> d)"
  shows "applyFallbackProtections npc_rules npcId effects gameState = Inr effects"
proof -
  have s: "soften npcId ops = ops" and z: "neutralize npcId ops = ops"
    using assms(2) by (auto simp: soften_def neutralize_def)
  have "effects\<lparr>eff_npc_opinions := Some ops\<rparr> = effects"
    using assms(1) by simp
  then show ?thesis
    using assms(1)
    by (cases "js_get npc_rules npcId")
       (simp_all add: applyFallbackProtections_def Let_def s z)
qed

lemma unlisted_result:
  "js_get npc_rules npcId = Undefined \<Longrightarrow>
   applyFallbackProtections npc_rules npcId effects gameState = Inr effects"
  by (simp add: applyFallbackProtections_def)

text \<open>
  A character without a rules entry whose id is no name of a member of
  \<open>Object.prototype\<close>: the guard returns at once and the delta is as it was.
\<close>

lemma unlisted_plain_result:
  assumes "map_of npc_rules npcId = None" and "npcId \<notin> set object_prototype_members"
  shows "applyFallbackProtections npc_rules npcId effects gameState = Inr effects"
  using assms by (intro unlisted_result) (simp add: js_get_def)

lemma final_opinion:
  assumes "distinct (map fst ops)"
      and "or_zero (js_get (npc_opinions gameState) npcId) = Num c"
  shows "js_get (npc_opinions (applyEffects gameState
           (effects\<lparr>eff_npc_opinions := Some (AList.update npcId d' ops)\<rparr>))) npcId
         = Own (Num (max (- 100) (min 100 (c + d'))))"
proof -
  have "distinct (map fst (AList.update npcId d' ops))"
    using assms(1) by (rule distinct_update)
  moreover have "map_of (AList.update npcId d' ops) npcId = Some d'"
    by (simp add: update_conv')
  ultimately have "js_get (add_clamped (npc_opinions gameState) (AList.update npcId d' ops)) npcId
        = Own (Num (max (- 100) (min 100 (c + d'))))"
    using assms(2) by (rule add_clamped_key)
  then show ?thesis
    by (simp add: applyEffects_def)
qed

text \<open>Every delta the rule lookup computes carries an opinion sub-map.\<close>

lemma computed_delta_has_opinions:
  "\<exists>ops. eff_npc_opinions (calculateDiplomacyEffects acts npcId sceneId analysis gameState) = Some ops"
  by (simp add: calculateDiplomacyEffects_def first_matching_find getDefaultEffects_def or_empty_def
      split: option.splits)

text \<open>
  Claim C3, as the code has it.  For a character that has an entry in the rules table,
  whose current opinion (\<open>opinions[npcId] || 0\<close>) reads as the number \<open>c\<close>: if the
  predicted opinion \<open>c + d\<close> is below -40 and the delta's component \<open>d\<close> is
  negative, the guard replaces that one component by a value no worse than -3 (-3 or
  the component itself if milder, and 0 below the hard threshold) and touches nothing
  else; applying the result stores the opinion moved by the new component, clamped.
  With current opinion -38 and delta -10 the component becomes -3 and the opinion ends
  at -41.
\<close>

theorem soft_lock_softens:
  assumes "map_of npc_rules npcId = Some npcRules"
      and "eff_npc_opinions effects = Some ops"
      and "map_of ops npcId = Some d" and "d < 0"
      and "or_zero (js_get (npc_opinions gameState) npcId) = Num c"
      and "c + d < - 40"
  shows "\<exists>d'. applyFallbackProtections npc_rules npcId effects gameState =
                 Inr (effects\<lparr>eff_npc_opinions := Some (AList.update npcId d' ops)\<rparr>)
           \<and> d' = (if c + d < - 80 then 0 else max d (- 3))
           \<and> - 3 \<le> d' \<and> d \<le> d' \<and> d' \<le> 0
           \<and> (\<forall>k. k \<noteq> npcId \<longrightarrow> map_of (AList.update npcId d' ops) k = map_of ops k)
           \<and> (distinct (map fst ops) \<longrightarrow>
                js_get (npc_opinions (applyEffects gameState
                      (effects\<lparr>eff_npc_opinions := Some (AList.update npcId d' ops)\<rparr>))) npcId
                  = Own (Num (max (- 100) (min 100 (c + d')))))"
proof -
  let ?d' = "if c + d < - 80 then 0 else max d (- 3)"
  have listed: "js_get npc_rules npcId \<noteq> Undefined"
    using assms(1) by (simp add: js_get_own)
  have "applyFallbackProtections npc_rules npcId effects gameState =
          Inr (effects\<lparr>eff_npc_opinions := Some (AList.update npcId ?d' ops)\<rparr>)"
    using guarded_result[OF listed assms(2-4), of gameState] predicted_below[OF assms(5) assms(3)]
      assms(6)
    by simp
  moreover have "- 3 \<le> ?d'" "d \<le> ?d'" "?d' \<le> 0"
    using assms(4) by simp_all
  moreover have "\<forall>k. k \<noteq> npcId \<longrightarrow> map_of (AList.update npcId ?d' ops) k = map_of ops k"
    by (simp add: update_conv')
  ultimately show ?thesis
    using final_opinion[where ops = ops and gameState = gameState and effects = effects
        and npcId = npcId and d' = ?d' and c = c] assms(5) by blast
qed

theorem soft_lock_softens_witness:
  "applyFallbackProtections example_rules ''trepov'' (example_delta ''trepov'' (- 10))
       (example_state ''trepov'' (- 38))
     = Inr (example_delta ''trepov'' (- 3))
   \<and> js_get (npc_opinions (applyEffects (example_state ''trepov'' (- 38))
            (example_delta ''trepov'' (- 3)))) ''trepov'' = Own (Num (- 41))"
proof -
  have "\<exists>d'. applyFallbackProtections example_rules ''trepov'' (example_delta ''trepov'' (- 10))
                 (example_state ''trepov'' (- 38)) =
                 Inr ((example_delta ''trepov'' (- 10))
                   \<lparr>eff_npc_opinions := Some (AList.update ''trepov'' d' [(''trepov'', - 10)])\<rparr>)
           \<and> d' = (if (- 38) + (- 10) < (- 80 :: int) then 0 else max (- 10) (- 3))
           \<and> - 3 \<le> d' \<and> - 10 \<le> d' \<and> d' \<le> 0
           \<and> (\<forall>k. k \<noteq> ''trepov'' \<longrightarrow>
                map_of (AList.update ''trepov'' d' [(''trepov'', - 10)]) k = map_of [(''trepov'', - 10)] k)
           \<and> (distinct (map fst [(''trepov'', - 10 :: int)]) \<longrightarrow>
                js_get (npc_opinions (applyEffects (example_state ''trepov'' (- 38))
                      ((example_delta ''trepov'' (- 10))
                        \<lparr>eff_npc_opinions := Some (AList.update ''trepov'' d' [(''trepov'', - 10)])\<rparr>))) ''trepov''
                  = Own (Num (max (- 100) (min 100 ((- 38) + d')))))"
    by (rule soft_lock_softens[where npcRules = "\<lparr>fallback_rule = Some ''offer a formal apology''\<rparr>"])
       (simp_all add: example_rules_def example_delta_def example_state_def js_get_def)
  then show ?thesis
    by (auto simp: example_delta_def)
qed

text \<open>
  The claim as stated, for every character, fails for a character without a rules
  entry: the guard returns at once, the component stays -10 and the opinion ends at
  -48.
\<close>

theorem soft_lock_unlisted_counterexample:
  "map_of example_rules ''kf'' = None
   \<and> (- 38) + (- 10) < (- 40 :: int)
   \<and> applyFallbackProtections example_rules ''kf'' (example_delta ''kf'' (- 10))
        (example_state ''kf'' (- 38))
      = Inr (example_delta ''kf'' (- 10))
   \<and> js_get (npc_opinions (applyEffects (example_state ''kf'' (- 38))
            (example_delta ''kf'' (- 10)))) ''kf'' = Own (Num (- 48))"
proof -
  have "js_get example_rules ''kf'' = Undefined"
    by (simp add: js_get_def example_rules_def object_prototype_members_def)
  then have "applyFallbackProtections example_rules ''kf'' (example_delta ''kf'' (- 10))
        (example_state ''kf'' (- 38)) = Inr (example_delta ''kf'' (- 10))"
    by (rule unlisted_result)
  moreover have "js_get (npc_opinions (applyEffects (example_state ''kf'' (- 38))
            ((example_delta ''kf'' (- 10))\<lparr>eff_npc_opinions := Some (AList.update ''kf'' (- 10) [(''kf'', - 10)])\<rparr>))) ''kf''
        = Own (Num (max (- 100) (min 100 ((- 38) + (- 10)))))"
    by (rule final_opinion) (simp_all add: example_state_def js_get_def)
  ultimately show ?thesis
    by (simp add: example_rules_def example_delta_def)
qed

text \<open>
  Claim C4, as the code has it.  For a character that has an entry in the rules table,
  whose current opinion reads as the number \<open>c\<close>: if the predicted opinion \<open>c + d\<close>
  is below -80 and the delta's component \<open>d\<close> is negative (it is then still negative
  after the softening), the guard sets that component to 0; applying the result leaves
  an opinion that was in range where it was.  With current opinion -75 and delta -10
  the component becomes 0 and the opinion stays -75.
\<close>

theorem hard_lock_neutralizes:
  assumes "map_of npc_rules npcId = Some npcRules"
      and "eff_npc_opinions effects = Some ops"
      and "map_of ops npcId = Some d" and "d < 0"
      and "or_zero (js_get (npc_opinions gameState) npcId) = Num c"
      and "c + d < - 80"
  shows "applyFallbackProtections npc_rules npcId effects gameState =
           Inr (effects\<lparr>eff_npc_opinions := Some (AList.update npcId 0 ops)\<rparr>)
         \<and> (distinct (map fst ops) \<and> - 100 \<le> c \<and> c \<le> 100 \<longrightarrow>
              js_get (npc_opinions (applyEffects gameState
                    (effects\<lparr>eff_npc_opinions := Some (AList.update npcId 0 ops)\<rparr>))) npcId
                = Own (Num c))"
proof -
  have listed: "js_get npc_rules npcId \<noteq> Undefined"
    using assms(1) by (simp add: js_get_own)
  have "applyFallbackProtections npc_rules npcId effects gameState =
          Inr (effects\<lparr>eff_npc_opinions := Some (AList.update npcId 0 ops)\<rparr>)"
    using guarded_result[OF listed assms(2-4), of gameState] predicted_below[OF assms(5) assms(3)]
      assms(6)
    by simp
  then show ?thesis
    using final_opinion[where ops = ops and gameState = gameState and effects = effects
        and npcId = npcId and d' = 0 and c = c] assms(5) by simp
qed

theorem hard_lock_neutralizes_witness:
  "applyFallbackProtections example_rules ''trepov'' (example_delta ''trepov'' (- 10))
       (example_state ''trepov'' (- 75))
     = Inr (example_delta ''trepov'' 0)
   \<and> js_get (npc_opinions (applyEffects (example_state ''trepov'' (- 75))
            (example_delta ''trepov'' 0))) ''trepov'' = Own (Num (- 75))"
  using hard_lock_neutralizes[where npc_rules = example_rules and npcId = "''trepov''"
      and npcRules = "\<lparr>fallback_rule = Some ''offer a formal apology''\<rparr>"
      and effects = "example_delta ''trepov'' (- 10)" and ops = "[(''trepov'', - 10)]"
      and d = "- 10" and gameState = "example_state ''trepov'' (- 75)" and c = "- 75"]
  by (simp add: example_rules_def example_delta_def example_state_def js_get_def)

text \<open>
  The claim as stated, for every character, fails for a character without a rules
  entry: the component stays -10 and the opinion crosses the hard floor to -85.
\<close>

theorem hard_lock_unlisted_counterexample:
  "map_of example_rules ''samsonov'' = None
   \<and> (- 75) + (- 10) < (- 80 :: int)
   \<and> applyFallbackProtections example_rules ''samsonov'' (example_delta ''samsonov'' (- 10))
        (example_state ''samsonov'' (- 75))
      = Inr (example_delta ''samsonov'' (- 10))
   \<and> js_get (npc_opinions (applyEffects (example_state ''samsonov'' (- 75))
            (example_delta ''samsonov'' (- 10)))) ''samsonov'' = Own (Num (- 85))"
proof -
  have "js_get example_rules ''samsonov'' = Undefined"
    by (simp add: js_get_def example_rules_def object_prototype_members_def)
  then have "applyFallbackProtections example_rules ''samsonov'' (example_delta ''samsonov'' (- 10))
        (example_state ''samsonov'' (- 75)) = Inr (example_delta ''samsonov'' (- 10))"
    by (rule unlisted_result)
  moreover have "js_get (npc_opinions (applyEffects (example_state ''samsonov'' (- 75))
            ((example_delta ''samsonov'' (- 10))\<lparr>eff_npc_opinions := Some (AList.update ''samsonov'' (- 10) [(''samsonov'', - 10)])\<rparr>))) ''samsonov''
        = Own (Num (max (- 100) (min 100 ((- 75) + (- 10)))))"
    by (rule final_opinion) (simp_all add: example_state_def js_get_def)
  ultimately show ?thesis
    by (simp add: example_rules_def example_delta_def)
qed

lemma guard_without_opinions:
  assumes "eff_npc_opinions effects = None"
  shows "applyFallbackProtections npc_rules npcId effects gameState
           = (if js_get npc_rules npcId = Undefined then Inr effects else Inl TypeError)"
  using assms by (cases "js_get npc_rules npcId") (simp_all add: applyFallbackProtections_def)

lemma guard_with_opinions:
  assumes ops: "eff_npc_opinions effects = Some ops"
  shows "\<exists>ops'. applyFallbackProtections npc_rules npcId effects gameState
                 = Inr (effects\<lparr>eff_npc_opinions := Some ops'\<rparr>)
         \<and> (ops' = ops
              \<or> (\<exists>d d'. map_of ops npcId = Some d \<and> d < 0 \<and> d \<le> d' \<and> d' \<le> 0
                    \<and> ops' = AList.update npcId d' ops))
         \<and> (\<not> js_lt (predictedOpinion gameState ops npcId) (- 40) \<longrightarrow> ops' = ops)"
proof -
  have same: "effects\<lparr>eff_npc_opinions := Some ops\<rparr> = effects"
    using ops by simp
  have unchanged: ?thesis
    if "applyFallbackProtections npc_rules npcId effects gameState = Inr effects"
  proof (intro exI[of _ ops] conjI)
    show "applyFallbackProtections npc_rules npcId effects gameState
            = Inr (effects\<lparr>eff_npc_opinions := Some ops\<rparr>)"
      using that same by simp
    show "ops = ops \<or> (\<exists>d d'. map_of ops npcId = Some d \<and> d < 0 \<and> d \<le> d' \<and> d' \<le> 0
                    \<and> ops = AList.update npcId d' ops)"
      by simp
    show "\<not> js_lt (predictedOpinion gameState ops npcId) (- 40) \<longrightarrow> ops = ops"
      by simp
  qed
  show ?thesis
  proof (cases "js_get npc_rules npcId = Undefined")
    case True
    then have "applyFallbackProtections npc_rules npcId effects gameState = Inr effects"
      by (rule unlisted_result)
    then show ?thesis
      by (rule unchanged)
  next
    case listed: False
    show ?thesis
    proof (cases "map_of ops npcId = None \<or> (\<exists>d. map_of ops npcId = Some d \<and> 0 \<le> d)")
      case True
      have "applyFallbackProtections npc_rules npcId effects gameState = Inr effects"
        using ops True by (rule unguarded_result)
      then show ?thesis
        by (rule unchanged)
    next
      case False
      then obtain d where d: "map_of ops npcId = Some d" "d < 0"
        by (cases "map_of ops npcId") auto
      note r = guarded_result[OF listed ops d, of gameState]
      show ?thesis
      proof (cases "js_lt (predictedOpinion gameState ops npcId) (- 80)")
        case True
        show ?thesis
        proof (intro exI[of _ "AList.update npcId 0 ops"] conjI)
          show "applyFallbackProtections npc_rules npcId effects gameState
                  = Inr (effects\<lparr>eff_npc_opinions := Some (AList.update npcId 0 ops)\<rparr>)"
            using r True by simp
          show "AList.update npcId 0 ops = ops
                \<or> (\<exists>da d'. map_of ops npcId = Some da \<and> da < 0 \<and> da \<le> d' \<and> d' \<le> 0
                      \<and> AList.update npcId 0 ops = AList.update npcId d' ops)"
            using d by (intro disjI2 exI[of _ d] exI[of _ 0]) simp
          show "\<not> js_lt (predictedOpinion gameState ops npcId) (- 40)
                \<longrightarrow> AList.update npcId 0 ops = ops"
            using js_lt_mono[OF True] by simp
        qed
      next
        case above80: False
        show ?thesis
        proof (cases "js_lt (predictedOpinion gameState ops npcId) (- 40)")
          case True
          show ?thesis
          proof (intro exI[of _ "AList.update npcId (max d (- 3)) ops"] conjI)
            show "applyFallbackProtections npc_rules npcId effects gameState
                    = Inr (effects\<lparr>eff_npc_opinions :=
                        Some (AList.update npcId (max d (- 3)) ops)\<rparr>)"
              using r True above80 by simp
            show "AList.update npcId (max d (- 3)) ops = ops
                  \<or> (\<exists>da d'. map_of ops npcId = Some da \<and> da < 0 \<and> da \<le> d' \<and> d' \<le> 0
                        \<and> AList.update npcId (max d (- 3)) ops = AList.update npcId d' ops)"
              using d by (intro disjI2 exI[of _ d] exI[of _ "max d (- 3)"]) simp
            show "\<not> js_lt (predictedOpinion gameState ops npcId) (- 40)
                  \<longrightarrow> AList.update npcId (max d (- 3)) ops = ops"
              using True by simp
          qed
        next
          case False
          have "applyFallbackProtections npc_rules npcId effects gameState = Inr effects"
            using r False above80 same by simp
          then show ?thesis
            by (rule unchanged)
        qed
      qed
    qed
  qed
qed

lemma delta_props:
  assumes "ops' = ops
           \<or> (\<exists>d d'. map_of ops npcId = Some d \<and> d < 0 \<and> d \<le> d' \<and> d' \<le> (0::int)
                 \<and> ops' = AList.update npcId d' ops)"
  shows "(\<forall>k. k \<noteq> npcId \<longrightarrow> map_of ops' k = map_of ops k)
         \<and> (map_of ops npcId = None \<longrightarrow> map_of ops' npcId = None)
         \<and> (\<forall>d. map_of ops npcId = Some d \<longrightarrow>
               (\<exists>d'. map_of ops' npcId = Some d' \<and> d \<le> d'
                  \<and> (d < 0 \<longrightarrow> d' \<le> 0) \<and> (0 \<le> d \<longrightarrow> d' = d)))"
  using assms
proof (elim disjE exE conjE)
  assume "ops' = ops"
  then show ?thesis
    by simp
next
  fix d d'
  assume "map_of ops npcId = Some d" "d < 0" "d \<le> d'" "d' \<le> 0"
     and "ops' = AList.update npcId d' ops"
  then show ?thesis
    by (simp add: update_conv')
qed

text \<open>
  Claim C5.  For every delta, the effects object after the guard has the factions,
  player traits and flags it had before.  In a delta with an opinion sub-map the guard
  returns, the opinions of every other character are the given ones, and the component
  of the dialogue character is never made more negative: a zero or positive component is
  kept, a negative one is replaced by a value between itself and 0, and a missing one
  stays missing.  When the predicted opinion is not below -40 the whole delta is as it
  was; so it is with current opinion 10 and delta -5.  A delta without an opinion
  sub-map is left as it was too: for a character without a rules entry the guard returns
  at once, for any other it throws a \<open>TypeError\<close> at its first read of the
  sub-map, before it writes anything.  The guard throws in no other case.
\<close>

theorem guard_only_softens:
  "eff_factions (delta_after_guard npc_rules npcId effects gameState) = eff_factions effects
   \<and> eff_player_traits (delta_after_guard npc_rules npcId effects gameState)
       = eff_player_traits effects
   \<and> eff_flags (delta_after_guard npc_rules npcId effects gameState) = eff_flags effects
   \<and> (eff_npc_opinions effects = None \<longrightarrow>
        delta_after_guard npc_rules npcId effects gameState = effects
        \<and> applyFallbackProtections npc_rules npcId effects gameState
            = (if js_get npc_rules npcId = Undefined then Inr effects else Inl TypeError))
   \<and> (eff_npc_opinions effects = Some ops \<longrightarrow>
        (\<exists>ops'. applyFallbackProtections npc_rules npcId effects gameState
                   = Inr (delta_after_guard npc_rules npcId effects gameState)
           \<and> eff_npc_opinions (delta_after_guard npc_rules npcId effects gameState) = Some ops'
           \<and> (\<forall>k. k \<noteq> npcId \<longrightarrow> map_of ops' k = map_of ops k)
           \<and> (map_of ops npcId = None \<longrightarrow> map_of ops' npcId = None)
           \<and> (\<forall>d. map_of ops npcId = Some d \<longrightarrow>
                 (\<exists>d'. map_of ops' npcId = Some d' \<and> d \<le> d'
                    \<and> (d < 0 \<longrightarrow> d' \<le> 0) \<and> (0 \<le> d \<longrightarrow> d' = d)))
           \<and> (\<not> js_lt (predictedOpinion gameState ops npcId) (- 40) \<longrightarrow>
                delta_after_guard npc_rules npcId effects gameState = effects)))
   \<and> (applyFallbackProtections npc_rules npcId effects gameState = Inl err \<longrightarrow>
        err = TypeError \<and> eff_npc_opinions effects = None)"
proof (cases "eff_npc_opinions effects")
  case None
  have r: "applyFallbackProtections npc_rules npcId effects gameState
             = (if js_get npc_rules npcId = Undefined then Inr effects else Inl TypeError)"
    using None by (rule guard_without_opinions)
  have D: "delta_after_guard npc_rules npcId effects gameState = effects"
    by (simp add: delta_after_guard_def r)
  have T: "applyFallbackProtections npc_rules npcId effects gameState = Inl err \<longrightarrow>
             err = TypeError"
    by (simp add: r)
  show ?thesis
    unfolding D using None T r by simp
next
  case (Some os)
  from guard_with_opinions[OF Some, of npc_rules npcId gameState]
  show ?thesis
  proof (elim exE conjE)
    fix ops'
    assume r: "applyFallbackProtections npc_rules npcId effects gameState
                 = Inr (effects\<lparr>eff_npc_opinions := Some ops'\<rparr>)"
      and shape: "ops' = os
              \<or> (\<exists>d d'. map_of os npcId = Some d \<and> d < 0 \<and> d \<le> d' \<and> d' \<le> 0
                    \<and> ops' = AList.update npcId d' os)"
      and above: "\<not> js_lt (predictedOpinion gameState os npcId) (- 40) \<longrightarrow> ops' = os"
    have D: "delta_after_guard npc_rules npcId effects gameState
               = effects\<lparr>eff_npc_opinions := Some ops'\<rparr>"
      by (simp add: delta_after_guard_def r)
    have same: "effects\<lparr>eff_npc_opinions := Some os\<rparr> = effects"
      using Some by simp
    note props = delta_props[OF shape]
    have main: "\<exists>x. applyFallbackProtections npc_rules npcId effects gameState
                   = Inr (delta_after_guard npc_rules npcId effects gameState)
           \<and> eff_npc_opinions (delta_after_guard npc_rules npcId effects gameState) = Some x
           \<and> (\<forall>k. k \<noteq> npcId \<longrightarrow> map_of x k = map_of os k)
           \<and> (map_of os npcId = None \<longrightarrow> map_of x npcId = None)
           \<and> (\<forall>d. map_of os npcId = Some d \<longrightarrow>
                 (\<exists>d'. map_of x npcId = Some d' \<and> d \<le> d'
                    \<and> (d < 0 \<longrightarrow> d' \<le> 0) \<and> (0 \<le> d \<longrightarrow> d' = d)))
           \<and> (\<not> js_lt (predictedOpinion gameState os npcId) (- 40) \<longrightarrow>
                delta_after_guard npc_rules npcId effects gameState = effects)"
    proof (intro exI[of _ ops'] conjI)
      show "applyFallbackProtections npc_rules npcId effects gameState
              = Inr (delta_after_guard npc_rules npcId effects gameState)"
        by (simp only: r D)
      show "eff_npc_opinions (delta_after_guard npc_rules npcId effects gameState) = Some ops'"
        by (simp add: D)
      show "\<forall>k. k \<noteq> npcId \<longrightarrow> map_of ops' k = map_of os k"
        by (rule props[THEN conjunct1])
      show "map_of os npcId = None \<longrightarrow> map_of ops' npcId = None"
        by (rule props[THEN conjunct2, THEN conjunct1])
      show "\<forall>d. map_of os npcId = Some d \<longrightarrow>
                 (\<exists>d'. map_of ops' npcId = Some d' \<and> d \<le> d'
                    \<and> (d < 0 \<longrightarrow> d' \<le> 0) \<and> (0 \<le> d \<longrightarrow> d' = d))"
        by (rule props[THEN conjunct2, THEN conjunct2])
      show "\<not> js_lt (predictedOpinion gameState os npcId) (- 40) \<longrightarrow>
                delta_after_guard npc_rules npcId effects gameState = effects"
      proof
        assume "\<not> js_lt (predictedOpinion gameState os npcId) (- 40)"
        with above have "ops' = os"
          by (rule mp)
        then show "delta_after_guard npc_rules npcId effects gameState = effects"
          by (simp only: D same)
      qed
    qed
    have f1: "eff_factions (delta_after_guard npc_rules npcId effects gameState)
                = eff_factions effects"
      by (simp add: D)
    have f2: "eff_player_traits (delta_after_guard npc_rules npcId effects gameState)
                = eff_player_traits effects"
      by (simp add: D)
    have f3: "eff_flags (delta_after_guard npc_rules npcId effects gameState) = eff_flags effects"
      by (simp add: D)
    have f4: "eff_npc_opinions effects = None \<longrightarrow>
                delta_after_guard npc_rules npcId effects gameState = effects
                \<and> applyFallbackProtections npc_rules npcId effects gameState
                    = (if js_get npc_rules npcId = Undefined then Inr effects else Inl TypeError)"
      using Some by simp
    have f6: "applyFallbackProtections npc_rules npcId effects gameState = Inl err \<longrightarrow>
                err = TypeError \<and> eff_npc_opinions effects = None"
      by (simp add: r)
    show ?thesis
    proof (cases "ops = os")
      case True
      show ?thesis
        unfolding True by (intro conjI impI f1 f2 f3 f4 f6 main)
    next
      case False
      then have f5: "eff_npc_opinions effects \<noteq> Some ops"
        using Some by simp
      show ?thesis
        by (intro conjI f1 f2 f3 f4 f6) (simp add: f5)
    qed
  qed
qed

theorem guard_only_softens_witness:
  "applyFallbackProtections example_rules ''trepov'' (example_delta ''trepov'' (- 5))
       (example_state ''trepov'' 10)
     = Inr (example_delta ''trepov'' (- 5))
   \<and> predictedOpinion (example_state ''trepov'' 10) [(''trepov'', - 5)] ''trepov'' = Num 5
   \<and> js_get (npc_opinions (applyEffects (example_state ''trepov'' 10)
            (example_delta ''trepov'' (- 5)))) ''trepov'' = Own (Num 5)
   \<and> delta_after_guard example_rules ''trepov''
        \<lparr>eff_factions = Some [(''RUS'', 3)], eff_player_traits = None,
         eff_npc_opinions = None, eff_flags = None\<rparr> (example_state ''trepov'' 10)
      = \<lparr>eff_factions = Some [(''RUS'', 3)], eff_player_traits = None,
         eff_npc_opinions = None, eff_flags = None\<rparr>
   \<and> applyFallbackProtections example_rules ''trepov''
        \<lparr>eff_factions = Some [(''RUS'', 3)], eff_player_traits = None,
         eff_npc_opinions = None, eff_flags = None\<rparr> (example_state ''trepov'' 10)
      = Inl TypeError"
proof -
  have h: "eff_npc_opinions (example_delta ''trepov'' (- 5)) = Some [(''trepov'', - 5)]"
    by (simp add: example_delta_def)
  have p: "predictedOpinion (example_state ''trepov'' 10) [(''trepov'', - 5)] ''trepov'' = Num 5"
    by (simp add: predictedOpinion_def example_state_def js_get_def to_double_exact)
  then have above: "\<not> js_lt (predictedOpinion (example_state ''trepov'' 10) [(''trepov'', - 5)] ''trepov'') (- 40)"
    by simp
  have "applyFallbackProtections example_rules ''trepov'' (example_delta ''trepov'' (- 5))
       (example_state ''trepov'' 10) = Inr (example_delta ''trepov'' (- 5))"
    using guard_only_softens[THEN conjunct2, THEN conjunct2, THEN conjunct2, THEN conjunct2,
        THEN conjunct1, rule_format, OF h, of example_rules "''trepov''" "example_state ''trepov'' 10"]
      above
    by (elim exE conjE) simp
  moreover have "js_get (npc_opinions (applyEffects (example_state ''trepov'' 10)
            ((example_delta ''trepov'' (- 5))\<lparr>eff_npc_opinions := Some (AList.update ''trepov'' (- 5) [(''trepov'', - 5)])\<rparr>))) ''trepov''
        = Own (Num (max (- 100) (min 100 (10 + (- 5)))))"
    by (rule final_opinion) (simp_all add: example_state_def js_get_def)
  moreover have "delta_after_guard example_rules ''trepov''
        \<lparr>eff_factions = Some [(''RUS'', 3)], eff_player_traits = None,
         eff_npc_opinions = None, eff_flags = None\<rparr> (example_state ''trepov'' 10)
      = \<lparr>eff_factions = Some [(''RUS'', 3)], eff_player_traits = None,
         eff_npc_opinions = None, eff_flags = None\<rparr>
    \<and> applyFallbackProtections example_rules ''trepov''
        \<lparr>eff_factions = Some [(''RUS'', 3)], eff_player_traits = None,
         eff_npc_opinions = None, eff_flags = None\<rparr> (example_state ''trepov'' 10)
      = Inl TypeError"
    using guard_only_softens[THEN conjunct2, THEN conjunct2, THEN conjunct2, THEN conjunct1,
        of "\<lparr>eff_factions = Some [(''RUS'', 3)], eff_player_traits = None,
         eff_npc_opinions = None, eff_flags = None\<rparr>" example_rules "''trepov''"
         "example_state ''trepov'' 10"]
    by (simp add: js_get_def example_rules_def)
  ultimately show ?thesis
    using p by (simp add: example_delta_def)
qed

text \<open>
  Claim C10, at the input where the code breaks it.  The rules table has no entry for a
  character named \<open>constructor\<close>, but the read \<open>npc_rules[npcId]\<close> finds the member
  that every object inherits under that name, which is truthy: the guard does not return.
  With a stored opinion of -38 and a delta of -10 the predicted opinion is -48, and the
  delta is softened to -3 although the character has no rules entry.
\<close>

theorem applyFallbackProtections_inherited_id:
  "map_of example_rules ''constructor'' = None
   \<and> js_get example_rules ''constructor'' = Inherited
   \<and> applyFallbackProtections example_rules ''constructor'' (example_delta ''constructor'' (- 10))
        (example_state ''constructor'' (- 38))
      = Inr (example_delta ''constructor'' (- 3))"
proof -
  have inh: "js_get example_rules ''constructor'' = Inherited"
    by (simp add: js_get_def example_rules_def object_prototype_members_def)
  then have listed: "js_get example_rules ''constructor'' \<noteq> Undefined"
    by simp
  have p: "js_lt (predictedOpinion (example_state ''constructor'' (- 38))
              [(''constructor'', - 10)] ''constructor'') (- 40)"
      "\<not> js_lt (predictedOpinion (example_state ''constructor'' (- 38))
              [(''constructor'', - 10)] ''constructor'') (- 80)"
    by (simp_all add: predictedOpinion_def example_state_def js_get_def to_double_exact)
  have "applyFallbackProtections example_rules ''constructor'' (example_delta ''constructor'' (- 10))
        (example_state ''constructor'' (- 38))
      = Inr (example_delta ''constructor'' (- 3))"
    using guarded_result[OF listed, of "example_delta ''constructor'' (- 10)"
        "[(''constructor'', - 10)]" "- 10" "example_state ''constructor'' (- 38)"] p
    by (simp add: example_delta_def)
  then show ?thesis
    using inh by (simp add: example_rules_def)
qed

section \<open>Properties of the state machine\<close>

lemma transition_scene_found:
  assumes "getCurrentState sm = Some state" and "node_type state = ''scene''"
      and "choices state = Some cs"
      and "find (\<lambda>c. choice_id c = cid) cs = Some c" and "choice_next c \<noteq> []"
  shows "transition sm (Some cid) now =
           (Inr (map_of (states sm) (choice_next c)),
            sm\<lparr>history := history sm @
                   [\<lparr>h_from = currentState sm, h_to = choice_next c,
                     h_choice = Some cid, h_timestamp = now\<rparr>],
                currentState := choice_next c\<rparr>)"
proof -
  have "next_state state (Some cid) = Inr (Some (choice_next c))"
    using assms(2-4) by (simp add: next_state_def)
  then show ?thesis
    using assms(1,5) by (simp add: transition_def falsy_def Let_def getCurrentState_def)
qed

lemma transition_scene_unknown:
  assumes "getCurrentState sm = Some state" and "node_type state = ''scene''"
      and "choices state = Some cs"
      and "find (\<lambda>c. Some (choice_id c) = choiceId) cs = None"
      and "\<not> falsy choiceId \<or> transitions state = None"
  shows "transition sm choiceId now = (Inl (NoValidTransition (currentState sm) choiceId), sm)"
proof -
  have "next_state state choiceId = Inr None"
    using assms(2-5) by (auto simp: next_state_def)
  then show ?thesis
    using assms(1) by (simp add: transition_def falsy_def)
qed








lemma scene_stays: "node_type n = ''scene'' \<Longrightarrow> \<not> handler_advances env n"
  by (simp add: handler_advances_def)

lemma offering_hub_stays:
  "node_type n = ''hub'' \<Longrightarrow> node_ai_dialogue n = Some npc_id \<Longrightarrow> ai_enabled env
   \<Longrightarrow> \<not> hub_render_fails env npc_id \<Longrightarrow> \<not> handler_advances env n"
  by (simp add: handler_advances_def)

text \<open>
  Claim C6, as the code has it.  On a scene state with choices: \<open>transition\<close> with
  the id of a choice whose target is a non-empty id moves the cursor to that target and
  appends exactly one history record, whose \<open>from\<close> is the state before the call,
  whose \<open>to\<close> is the new state and whose \<open>choice\<close> is the given id; the call
  returns the new state.  With an id that no choice has, where the transitions fallback
  does not apply (a non-empty id was given, or the state declares no transitions), the
  call fails with the no-valid-transition error and cursor and history are as before.
\<close>

theorem transition_scene_choice:
  assumes "getCurrentState sm = Some state" and "node_type state = ''scene''"
      and "choices state = Some cs"
  shows "(find (\<lambda>c. choice_id c = cid) cs = Some c \<and> choice_next c \<noteq> [] \<longrightarrow>
            transition sm (Some cid) now =
              (Inr (map_of (states sm) (choice_next c)),
               sm\<lparr>history := history sm @
                      [\<lparr>h_from = currentState sm, h_to = choice_next c,
                        h_choice = Some cid, h_timestamp = now\<rparr>],
                   currentState := choice_next c\<rparr>))
       \<and> (find (\<lambda>c. Some (choice_id c) = choiceId) cs = None
            \<and> (\<not> falsy choiceId \<or> transitions state = None) \<longrightarrow>
            transition sm choiceId now
              = (Inl (NoValidTransition (currentState sm) choiceId), sm))"
  using transition_scene_found[OF assms] transition_scene_unknown[OF assms]
  by blast

theorem transition_scene_choice_witness:
  "transition (example_machine ''scene_1'') (Some ''b'') 7 =
     (Inr (map_of example_states ''Y''),
      (example_machine ''scene_1'')
        \<lparr>history := [\<lparr>h_from = ''scene_1'', h_to = ''Y'', h_choice = Some ''b'', h_timestamp = 7\<rparr>],
         currentState := ''Y''\<rparr>)
   \<and> transition (example_machine ''scene_1'') (Some ''z'') 7 =
       (Inl (NoValidTransition ''scene_1'' (Some ''z'')), example_machine ''scene_1'')"
proof -
  let ?node = "\<lparr>node_type = ''scene'',
          choices = Some [\<lparr>choice_id = ''a'', choice_next = ''X''\<rparr>,
                          \<lparr>choice_id = ''b'', choice_next = ''Y''\<rparr>],
          transitions = None, node_ai_dialogue = None\<rparr>"
  have a: "getCurrentState (example_machine ''scene_1'') = Some ?node"
    by (simp add: getCurrentState_def example_machine_def new_machine_def example_states_def)
  have b: "node_type ?node = ''scene''"
    by simp
  have c: "choices ?node = Some [\<lparr>choice_id = ''a'', choice_next = ''X''\<rparr>,
                          \<lparr>choice_id = ''b'', choice_next = ''Y''\<rparr>]"
    by simp
  show ?thesis
    using transition_scene_choice[OF a b c, of "''b''" "\<lparr>choice_id = ''b'', choice_next = ''Y''\<rparr>" 7
        "Some ''z''"]
    by (simp add: falsy_def example_machine_def new_machine_def)
qed

text \<open>
  The claim as stated fails for a matching choice whose target is the empty string:
  \<open>!nextState\<close> holds and the call throws, the machine unchanged.
\<close>

theorem transition_empty_target_counterexample:
  "getCurrentState (example_machine ''Y'') =
     Some \<lparr>node_type = ''scene'', choices = Some [\<lparr>choice_id = ''a'', choice_next = ''''\<rparr>],
           transitions = None, node_ai_dialogue = None\<rparr>
   \<and> find (\<lambda>c. choice_id c = ''a'') [\<lparr>choice_id = ''a'', choice_next = ''''\<rparr>]
       = Some \<lparr>choice_id = ''a'', choice_next = ''''\<rparr>
   \<and> transition (example_machine ''Y'') (Some ''a'') 7 =
       (Inl (NoValidTransition ''Y'' (Some ''a'')), example_machine ''Y'')"
  by (simp add: transition_def next_state_def falsy_def getCurrentState_def
      example_machine_def new_machine_def example_states_def)



section \<open>Properties of the dialogue analysis\<close>

lemma get_prop_member_of: "get_prop v name = Inr x \<Longrightarrow> x = member_of v name"
  by (cases v) (auto simp: get_prop_def member_of_def)

lemma truthy_Some: "truthy x \<Longrightarrow> \<exists>a. x = Some a"
  by (cases x) (simp_all add: truthy_def)

text \<open>
  The \<open>try\<close> block completes only on a parsed value that has a truthy reply and a
  truthy analysis with the two required fields truthy.
\<close>

lemma parse_try_Inr:
  assumes "parse_try JSON_parse responseText = Inr v"
  shows "JSON_parse (clean_text responseText) = Some v
         \<and> truthy (member_of v ''response'')
         \<and> truthy (member_of v ''analysis'')
         \<and> (\<exists>a. member_of v ''analysis'' = Some a
                \<and> truthy (member_of a ''overall_tone'')
                \<and> truthy (member_of a ''detected_stance_towards_russia''))"
proof -
  from assms obtain parsed where p: "JSON_parse (clean_text responseText) = Some parsed"
    by (cases "JSON_parse (clean_text responseText)") (simp_all add: parse_try_def)
  from assms p obtain response where r: "get_prop parsed ''response'' = Inr response"
    by (cases "get_prop parsed ''response''") (simp_all add: parse_try_def)
  from assms p r have tr: "truthy response"
    by (cases "truthy response") (simp_all add: parse_try_def)
  from assms p r tr obtain analysis where a: "get_prop parsed ''analysis'' = Inr analysis"
    by (cases "get_prop parsed ''analysis''") (simp_all add: parse_try_def)
  from assms p r tr a have ta: "truthy analysis"
    by (cases "truthy analysis") (simp_all add: parse_try_def)
  then obtain an where an: "analysis = Some an"
    using truthy_Some by blast
  from assms p r tr a ta an obtain overall_tone
    where t: "get_prop an ''overall_tone'' = Inr overall_tone"
    by (cases "get_prop an ''overall_tone''") (simp_all add: parse_try_def)
  from assms p r tr a ta an t have tt: "truthy overall_tone"
    by (cases "truthy overall_tone") (simp_all add: parse_try_def)
  from assms p r tr a ta an t tt obtain stance
    where s: "get_prop an ''detected_stance_towards_russia'' = Inr stance"
    by (cases "get_prop an ''detected_stance_towards_russia''") (simp_all add: parse_try_def)
  from assms p r tr a ta an t tt s have ts: "truthy stance"
    by (cases "truthy stance") (simp_all add: parse_try_def)
  from assms p r tr a ta an t tt s ts have "v = parsed"
    by (simp add: parse_try_def)
  then show ?thesis
    using p tr ta tt ts an get_prop_member_of[OF r] get_prop_member_of[OF a]
      get_prop_member_of[OF t] get_prop_member_of[OF s]
    by simp
qed

lemma parseResponse_caught:
  "parse_try JSON_parse responseText = Inl e \<Longrightarrow>
   parseResponse JSON_parse responseText = fallback_response"
  by (simp add: parseResponse_def)

lemma parseResponse_returned:
  "parse_try JSON_parse responseText = Inr v \<Longrightarrow>
   parseResponse JSON_parse responseText = v"
  by (simp add: parseResponse_def)

lemma not_truthy_None: "\<not> truthy None"
  by (simp add: truthy_def)

text \<open>
  Claim C8.  \<open>parseResponse\<close> returns a value on every reply: whatever its
  \<open>try\<close> block throws is caught and answered with the fixed fallback.  So it is when
  the cleaned text is not JSON, and when in the parsed value \<open>response\<close>,
  \<open>analysis\<close>, \<open>analysis.overall_tone\<close> or
  \<open>analysis.detected_stance_towards_russia\<close> is lacking or falsy.  What it returns is
  always the fallback or the value parsed from the cleaned text.  The fallback carries
  the fixed reply and the neutral analysis: tone \<open>["neutral"]\<close>, stance
  \<open>neutral\<close>, cooperativeness \<open>medium\<close>.
\<close>

theorem parseResponse_falls_back:
  "(JSON_parse (clean_text responseText) = None \<longrightarrow>
      parseResponse JSON_parse responseText = fallback_response)
   \<and> (JSON_parse (clean_text responseText) = Some parsed
        \<and> (\<not> truthy (member_of parsed ''response'')
            \<or> \<not> truthy (member_of parsed ''analysis'')
            \<or> (\<exists>a. member_of parsed ''analysis'' = Some a
                  \<and> (\<not> truthy (member_of a ''overall_tone'')
                      \<or> \<not> truthy (member_of a ''detected_stance_towards_russia'')))) \<longrightarrow>
      parseResponse JSON_parse responseText = fallback_response)
   \<and> (parse_try JSON_parse responseText = Inl e \<longrightarrow>
      parseResponse JSON_parse responseText = fallback_response)
   \<and> (parseResponse JSON_parse responseText = fallback_response
        \<or> JSON_parse (clean_text responseText) = Some (parseResponse JSON_parse responseText))
   \<and> \<not> truthy None
   \<and> member_of fallback_response ''response''
       = Some (JStr (''Anteeksi, en voi nyt keskustella. Jatketaan my'' @ o_uml @ ''hemmin.''))
   \<and> member_of fallback_response ''analysis''
       = Some (JObj [(''overall_tone'', JArr [JStr ''neutral'']),
                     (''detected_stance_towards_russia'', JStr ''neutral''),
                     (''cooperativeness'', JStr ''medium'')])"
proof -
  have not_json: "JSON_parse (clean_text responseText) = None \<longrightarrow>
      parseResponse JSON_parse responseText = fallback_response"
    by (simp add: parseResponse_def parse_try_def)
  have lacking: "JSON_parse (clean_text responseText) = Some parsed
        \<and> (\<not> truthy (member_of parsed ''response'')
            \<or> \<not> truthy (member_of parsed ''analysis'')
            \<or> (\<exists>a. member_of parsed ''analysis'' = Some a
                  \<and> (\<not> truthy (member_of a ''overall_tone'')
                      \<or> \<not> truthy (member_of a ''detected_stance_towards_russia'')))) \<longrightarrow>
      parseResponse JSON_parse responseText = fallback_response"
  proof
    assume h: "JSON_parse (clean_text responseText) = Some parsed
        \<and> (\<not> truthy (member_of parsed ''response'')
            \<or> \<not> truthy (member_of parsed ''analysis'')
            \<or> (\<exists>a. member_of parsed ''analysis'' = Some a
                  \<and> (\<not> truthy (member_of a ''overall_tone'')
                      \<or> \<not> truthy (member_of a ''detected_stance_towards_russia''))))"
    show "parseResponse JSON_parse responseText = fallback_response"
    proof (cases "parse_try JSON_parse responseText")
      case (Inl err)
      then show ?thesis
        by (rule parseResponse_caught)
    next
      case (Inr v)
      from parse_try_Inr[OF Inr] h have "v = parsed"
        by simp
      with parse_try_Inr[OF Inr] h have False
        by auto
      then show ?thesis ..
    qed
  qed
  have caught: "parse_try JSON_parse responseText = Inl e \<longrightarrow>
      parseResponse JSON_parse responseText = fallback_response"
    by (simp add: parseResponse_def)
  have either: "parseResponse JSON_parse responseText = fallback_response
        \<or> JSON_parse (clean_text responseText) = Some (parseResponse JSON_parse responseText)"
  proof (cases "parse_try JSON_parse responseText")
    case (Inl err)
    then show ?thesis
      by (simp add: parseResponse_def)
  next
    case (Inr v)
    from parse_try_Inr[OF Inr] parseResponse_returned[OF Inr] show ?thesis
      by simp
  qed
  have fields: "member_of fallback_response ''response''
       = Some (JStr (''Anteeksi, en voi nyt keskustella. Jatketaan my'' @ o_uml @ ''hemmin.''))"
    "member_of fallback_response ''analysis''
       = Some (JObj [(''overall_tone'', JArr [JStr ''neutral'']),
                     (''detected_stance_towards_russia'', JStr ''neutral''),
                     (''cooperativeness'', JStr ''medium'')])"
    by (simp_all add: member_of_def fallback_response_def)
  show ?thesis
    by (intro conjI not_json lacking caught either not_truthy_None fields)
qed

text \<open>
  A fenced empty object between no-break spaces, a sentence that is no JSON, and a reply
  without \<open>overall_tone\<close> are answered with the fallback; a complete reply between
  no-break spaces and fences is cleaned and returned as parsed.
\<close>

theorem parseResponse_falls_back_witness:
  "clean_text ([CHR 0xC2, CHR 0xA0] @ ''  ```json'' @ [CHR 0x0A] @ ''{}'' @ [CHR 0x0A]
               @ ''```  '' @ [CHR 0xC2, CHR 0xA0]) = ''{}''
   \<and> parseResponse example_JSON_parse
         ([CHR 0xC2, CHR 0xA0] @ ''  ```json'' @ [CHR 0x0A] @ ''{}'' @ [CHR 0x0A]
          @ ''```  '' @ [CHR 0xC2, CHR 0xA0])
       = fallback_response
   \<and> parseResponse example_JSON_parse ''I will not answer in JSON.'' = fallback_response
   \<and> parseResponse example_JSON_parse example_toneless_text = fallback_response
   \<and> parseResponse example_JSON_parse
         ([CHR 0xC2, CHR 0xA0] @ ''```json'' @ [CHR 0x0A] @ example_reply_text @ [CHR 0x0A]
          @ ''```'' @ [CHR 0xEF, CHR 0xBB, CHR 0xBF])
       = example_reply"
proof -
  let ?fenced = "[CHR 0xC2, CHR 0xA0] @ ''  ```json'' @ [CHR 0x0A] @ ''{}'' @ [CHR 0x0A]
               @ ''```  '' @ [CHR 0xC2, CHR 0xA0]"
  let ?wrapped = "[CHR 0xC2, CHR 0xA0] @ ''```json'' @ [CHR 0x0A] @ example_reply_text @ [CHR 0x0A]
          @ ''```'' @ [CHR 0xEF, CHR 0xBB, CHR 0xBF]"
  have c1: "clean_text ?fenced = ''{}''"
    by (simp add: clean_text_def trim_def white_space_def)
  have c2: "clean_text ''I will not answer in JSON.'' = ''I will not answer in JSON.''"
    by (simp add: clean_text_def trim_def white_space_def)
  have c3: "clean_text example_toneless_text = example_toneless_text"
    by (simp add: clean_text_def trim_def white_space_def example_toneless_text_def quoted_def)
  have c4: "clean_text ?wrapped = example_reply_text"
    by (simp add: clean_text_def trim_def white_space_def example_reply_text_def quoted_def)
  have p2: "example_JSON_parse ''I will not answer in JSON.'' = None"
    by (simp add: example_JSON_parse_def example_reply_text_def example_toneless_text_def
        quoted_def)
  have p3: "example_JSON_parse example_toneless_text = Some example_toneless"
    by (simp add: example_JSON_parse_def example_reply_text_def example_toneless_text_def
        quoted_def)
  have p4: "example_JSON_parse example_reply_text = Some example_reply"
    by (simp add: example_JSON_parse_def example_reply_text_def quoted_def)
  have "parseResponse example_JSON_parse ?fenced = fallback_response"
    using parseResponse_falls_back[THEN conjunct2, THEN conjunct1, rule_format,
        of example_JSON_parse ?fenced "JObj []"]
    by (simp only: c1) (simp add: example_JSON_parse_def member_of_def truthy_def)
  moreover have "parseResponse example_JSON_parse ''I will not answer in JSON.'' = fallback_response"
    using parseResponse_falls_back[THEN conjunct1, rule_format,
        of example_JSON_parse "''I will not answer in JSON.''"]
    by (simp add: c2 p2)
  moreover have "parseResponse example_JSON_parse example_toneless_text = fallback_response"
    using parseResponse_falls_back[THEN conjunct2, THEN conjunct1, rule_format,
        of example_JSON_parse example_toneless_text example_toneless]
    by (simp only: c3 p3) (simp add: example_toneless_def member_of_def truthy_def)
  moreover have "parseResponse example_JSON_parse ?wrapped = example_reply"
    by (simp only: parseResponse_def parse_try_def c4 p4)
       (simp add: example_reply_def get_prop_def truthy_def)
  ultimately show ?thesis
    using c1 by simp
qed


lemma analyzePlayerResponse_spec:
  "analyzePlayerResponse toLowerCase playerText npcProfile = spec_analysis (toLowerCase playerText)"
  by (simp add: analyzePlayerResponse_def spec_analysis_def spec_families_def Let_def)

text \<open>
  Claim C9.  The analyzer lower-cases the text and tests the four keyword families in
  the order duty, caution, refusal, agreement; its result is the tone, theme and
  sentiment of the first family that matches, and tone neutral, no themes, sentiment
  neutral when none does.  A text with a duty keyword yields the duty result whether
  or not it also has a caution keyword.
\<close>

theorem analyzePlayerResponse_first_family:
  "analyzePlayerResponse toLowerCase playerText npcProfile = spec_analysis (toLowerCase playerText)
   \<and> (regex_match duty_terms (toLowerCase playerText) \<longrightarrow>
        analyzePlayerResponse toLowerCase playerText npcProfile
          = \<lparr>tone = ''loyal'', themes = [''duty''], sentiment = ''positive''\<rparr>)
   \<and> (\<not> regex_match duty_terms (toLowerCase playerText)
        \<and> regex_match caution_terms (toLowerCase playerText) \<longrightarrow>
        analyzePlayerResponse toLowerCase playerText npcProfile
          = \<lparr>tone = ''concerned'', themes = [''caution''], sentiment = ''neutral''\<rparr>)
   \<and> (\<not> regex_match duty_terms (toLowerCase playerText)
        \<and> \<not> regex_match caution_terms (toLowerCase playerText)
        \<and> regex_match refusal_terms (toLowerCase playerText) \<longrightarrow>
        analyzePlayerResponse toLowerCase playerText npcProfile
          = \<lparr>tone = ''defiant'', themes = [''resistance''], sentiment = ''negative''\<rparr>)
   \<and> (\<not> regex_match duty_terms (toLowerCase playerText)
        \<and> \<not> regex_match caution_terms (toLowerCase playerText)
        \<and> \<not> regex_match refusal_terms (toLowerCase playerText)
        \<and> regex_match agreement_terms (toLowerCase playerText) \<longrightarrow>
        analyzePlayerResponse toLowerCase playerText npcProfile
          = \<lparr>tone = ''cooperative'', themes = [''agreement''], sentiment = ''positive''\<rparr>)
   \<and> (\<not> regex_match duty_terms (toLowerCase playerText)
        \<and> \<not> regex_match caution_terms (toLowerCase playerText)
        \<and> \<not> regex_match refusal_terms (toLowerCase playerText)
        \<and> \<not> regex_match agreement_terms (toLowerCase playerText) \<longrightarrow>
        analyzePlayerResponse toLowerCase playerText npcProfile
          = \<lparr>tone = ''neutral'', themes = [], sentiment = ''neutral''\<rparr>)"
  using analyzePlayerResponse_spec[of toLowerCase playerText npcProfile]
  by (simp add: analyzePlayerResponse_def Let_def)

theorem analyzePlayerResponse_first_family_witness:
  "regex_match duty_terms (example_toLowerCase ''Totelen, vaikka RISKI on suuri'')
   \<and> regex_match caution_terms (example_toLowerCase ''Totelen, vaikka RISKI on suuri'')
   \<and> analyzePlayerResponse example_toLowerCase ''Totelen, vaikka RISKI on suuri'' ()
       = \<lparr>tone = ''loyal'', themes = [''duty''], sentiment = ''positive''\<rparr>
   \<and> analyzePlayerResponse example_toLowerCase ''Hyvaa paivaa'' ()
       = \<lparr>tone = ''neutral'', themes = [], sentiment = ''neutral''\<rparr>"
proof -
  have low: "example_toLowerCase ''Totelen, vaikka RISKI on suuri'' = ''totelen, vaikka riski on suuri''"
    by (simp add: example_toLowerCase_def)
  have duty: "regex_match duty_terms (example_toLowerCase ''Totelen, vaikka RISKI on suuri'')"
    by (simp add: low regex_match_def duty_terms_def a_uml_def)
  have caution: "regex_match caution_terms (example_toLowerCase ''Totelen, vaikka RISKI on suuri'')"
    by (simp add: low regex_match_def caution_terms_def a_uml_def)
  have loyal: "analyzePlayerResponse example_toLowerCase ''Totelen, vaikka RISKI on suuri'' ()
       = \<lparr>tone = ''loyal'', themes = [''duty''], sentiment = ''positive''\<rparr>"
    using duty analyzePlayerResponse_first_family[where toLowerCase = example_toLowerCase
        and playerText = "''Totelen, vaikka RISKI on suuri''" and npcProfile = "()"]
    by blast
  have low2: "example_toLowerCase ''Hyvaa paivaa'' = ''hyvaa paivaa''"
    by (simp add: example_toLowerCase_def)
  have neutral: "analyzePlayerResponse example_toLowerCase ''Hyvaa paivaa'' ()
       = \<lparr>tone = ''neutral'', themes = [], sentiment = ''neutral''\<rparr>"
    by (simp add: analyzePlayerResponse_def Let_def low2 regex_match_def duty_terms_def
        caution_terms_def refusal_terms_def agreement_terms_def a_uml_def)
  show ?thesis
    using duty caution loyal neutral by blast
qed

end
